theory Spec2Isabelle
  imports Complex_Main
begin

section \<open>Galactic bulge/disk/halo decomposition (pynbody/analysis/decomp.py)\<close>

subsection \<open>Floating-point values as the code compares them\<close>

text \<open>
  The arrays of the source hold IEEE doubles. Finite values are modelled as reals; the
  three non-finite values are kept apart, because the source writes \<open>np.inf\<close> into
  \<open>j_circ\<close> and every comparison with a NaN is false.
\<close>

datatype flt = NaN | NegInf | Fin real | PosInf

text \<open>\<open>a < c\<close> and \<open>a > c\<close> for an array element \<open>a\<close> and a finite scalar \<open>c\<close>.\<close>

fun flt_lt :: "flt \<Rightarrow> real \<Rightarrow> bool" where
  "flt_lt NaN c = False"
| "flt_lt NegInf c = True"
| "flt_lt (Fin a) c = (a < c)"
| "flt_lt PosInf c = False"

fun flt_gt :: "flt \<Rightarrow> real \<Rightarrow> bool" where
  "flt_gt NaN c = False"
| "flt_gt NegInf c = False"
| "flt_gt (Fin a) c = (a > c)"
| "flt_gt PosInf c = True"

text \<open>\<open>a >= c\<close>, used for \<open>te <= E_cut\<close> with the energy cut as the array-side value.\<close>

fun flt_ge :: "flt \<Rightarrow> real \<Rightarrow> bool" where
  "flt_ge NaN c = False"
| "flt_ge NegInf c = False"
| "flt_ge (Fin a) c = (a \<ge> c)"
| "flt_ge PosInf c = True"

text \<open>\<open>a < b\<close> on two doubles.\<close>

definition flt_less :: "flt \<Rightarrow> flt \<Rightarrow> bool" where
  "flt_less a b =
     (case b of
        NaN \<Rightarrow> False
      | NegInf \<Rightarrow> False
      | Fin y \<Rightarrow> flt_lt a y
      | PosInf \<Rightarrow> (case a of NaN \<Rightarrow> False | PosInf \<Rightarrow> False | _ \<Rightarrow> True))"

text \<open>\<open>x / d\<close> for a finite numerator: division by zero and by infinity as numpy does it.\<close>

fun flt_div :: "real \<Rightarrow> flt \<Rightarrow> flt" where
  "flt_div x NaN = NaN"
| "flt_div x NegInf = Fin 0"
| "flt_div x PosInf = Fin 0"
| "flt_div x (Fin d) =
     (if d \<noteq> 0 then Fin (x / d)
      else if x > 0 then PosInf else if x < 0 then NegInf else NaN)"

subsection \<open>Index selection and indexed assignment\<close>

text \<open>\<open>np.where(mask)[0]\<close>: the indices at which the mask is true, ascending.\<close>

definition np_where :: "bool list \<Rightarrow> nat list" where
  "np_where m = filter (\<lambda>i. m ! i) [0..<length m]"

text \<open>\<open>a[idx] = v\<close> for an index array \<open>idx\<close> and a scalar \<open>v\<close>.\<close>

definition set_items :: "nat list \<Rightarrow> 'a \<Rightarrow> 'a list \<Rightarrow> 'a list" where
  "set_items idx v xs = fold (\<lambda>i a. a[i := v]) idx xs"

text \<open>Elementwise product and sum of boolean arrays (\<open>*\<close> is and, \<open>+\<close> is or).\<close>

definition mask_and :: "bool list \<Rightarrow> bool list \<Rightarrow> bool list" where
  "mask_and a b = map2 (\<and>) a b"

definition mask_or :: "bool list \<Rightarrow> bool list \<Rightarrow> bool list" where
  "mask_or a b = map2 (\<or>) a b"

subsection \<open>The component classifier (decomp, lines 173-178 and 200-217)\<close>

text \<open>
  Modelled from the spec: \<open>h_star._create_array('decomp', dtype=int)\<close> attaches an
  integer array with one entry per star; it is only called when the array is absent. The
  call does not fix what the new array holds before anything is assigned to it (the
  spec's default, 0 or unset): the content of each new cell is a parameter, \<open>fresh\<close>.
\<close>

definition create_decomp :: "(nat \<Rightarrow> int) \<Rightarrow> nat \<Rightarrow> int list option \<Rightarrow> int list" where
  "create_decomp fresh n old = (case old of None \<Rightarrow> map fresh [0..<n] | Some d \<Rightarrow> d)"

text \<open>Pass 1 (lines 175-178): the disk band, label 1.\<close>

definition pass1 :: "real \<Rightarrow> real \<Rightarrow> flt list \<Rightarrow> int list \<Rightarrow> int list" where
  "pass1 jmin jmax JzJcirc dec =
     (let disk = np_where (mask_and (map (\<lambda>r. flt_gt r jmin) JzJcirc)
                                    (map (\<lambda>r. flt_lt r jmax) JzJcirc))
      in set_items disk 1 dec)"

text \<open>
  Pass 2 (lines 207-217): halo, bulge, thick disk and pseudo bulge, assigned in the
  source's order. The energy cut is a float: \<open>te > E_cut\<close> is \<open>E_cut < te\<close> and
  \<open>te <= E_cut\<close> is \<open>E_cut >= te\<close>, both false for a NaN cut.
\<close>

definition pass2 ::
  "real \<Rightarrow> real \<Rightarrow> real \<Rightarrow> flt \<Rightarrow> real list \<Rightarrow> flt list \<Rightarrow> int list \<Rightarrow> int list" where
  "pass2 jmin jmax jcrit ecut te JzJcirc dec =
     (let below = map (\<lambda>r. flt_lt r jcrit) JzJcirc;
          above = map (\<lambda>r. flt_gt r jcrit) JzJcirc;
          outside = mask_or (map (\<lambda>r. flt_lt r jmin) JzJcirc)
                            (map (\<lambda>r. flt_gt r jmax) JzJcirc);
          hi_e = map (\<lambda>e. flt_lt ecut e) te;
          lo_e = map (\<lambda>e. flt_ge ecut e) te;
          halo = np_where (mask_and hi_e below);
          bulge = np_where (mask_and lo_e below);
          pbulge = np_where (mask_and (mask_and lo_e above) outside);
          thick = np_where (mask_and (mask_and hi_e above) outside);
          d2 = set_items halo 2 dec;
          d3 = set_items bulge 3 d2;
          d4 = set_items thick 4 d3;
          d5 = set_items pbulge 5 d4
      in d5)"

text \<open>The five rules as predicates on one star's energy and ratio.\<close>

definition in_disk :: "real \<Rightarrow> real \<Rightarrow> flt \<Rightarrow> bool" where
  "in_disk jmin jmax r \<longleftrightarrow> flt_gt r jmin \<and> flt_lt r jmax"

definition in_halo :: "real \<Rightarrow> flt \<Rightarrow> real \<Rightarrow> flt \<Rightarrow> bool" where
  "in_halo jcrit ecut e r \<longleftrightarrow> flt_lt ecut e \<and> flt_lt r jcrit"

definition in_bulge :: "real \<Rightarrow> flt \<Rightarrow> real \<Rightarrow> flt \<Rightarrow> bool" where
  "in_bulge jcrit ecut e r \<longleftrightarrow> flt_ge ecut e \<and> flt_lt r jcrit"

definition in_pbulge :: "real \<Rightarrow> real \<Rightarrow> real \<Rightarrow> flt \<Rightarrow> real \<Rightarrow> flt \<Rightarrow> bool" where
  "in_pbulge jmin jmax jcrit ecut e r \<longleftrightarrow>
     flt_ge ecut e \<and> flt_gt r jcrit \<and> (flt_lt r jmin \<or> flt_gt r jmax)"

definition in_thick :: "real \<Rightarrow> real \<Rightarrow> real \<Rightarrow> flt \<Rightarrow> real \<Rightarrow> flt \<Rightarrow> bool" where
  "in_thick jmin jmax jcrit ecut e r \<longleftrightarrow>
     flt_lt ecut e \<and> flt_gt r jcrit \<and> (flt_lt r jmin \<or> flt_gt r jmax)"

subsection \<open>The critical-ratio solver (decomp, lines 184-198)\<close>

datatype log_record =
    Info_te_max real
  | Info_making_curve
  | Info_finding_boundary
  | Info_j_crit real
  | Warning_j_crit_exceeds
  | Warning_j_crit_reset real
  | Info_E_cut flt

text \<open>\<open>np.mean\<close> of a float array: NaN (with a runtime warning) on the empty array.\<close>

definition np_mean :: "real list \<Rightarrow> flt" where
  "np_mean xs = (if xs = [] then NaN else Fin (sum_list xs / real (length xs)))"

text \<open>\<open>V[idx]\<close> for an index array.\<close>

definition take_items :: "'a list \<Rightarrow> nat list \<Rightarrow> 'a list" where
  "take_items xs idx = map (\<lambda>i. xs ! i) idx"

text \<open>The objective \<open>lambda c: np.mean(V[np.where(JzJcirc < c)])\<close>.\<close>

definition objective :: "real list \<Rightarrow> flt list \<Rightarrow> real \<Rightarrow> flt" where
  "objective V JzJcirc c = np_mean (take_items V (np_where (map (\<lambda>r. flt_lt r c) JzJcirc)))"

text \<open>Lines 194-198: the reset of a critical ratio above \<open>j_disk_min\<close>, with its two warnings.\<close>

definition reset_j_crit :: "real \<Rightarrow> real \<Rightarrow> real \<times> log_record list" where
  "reset_j_crit jmin jcrit =
     (if jcrit > jmin
      then (jmin, [Warning_j_crit_exceeds, Warning_j_crit_reset jmin])
      else (jcrit, []))"

subsection \<open>Errors and array reductions\<close>

datatype error =
    UnitsException
  | ValueError
  | ZeroDivisionError
  | IndexError
  | KeyError
  | CollaboratorError string

text \<open>\<open>a.max()\<close> and \<open>a.min()\<close>: ValueError on a zero-size array.\<close>

fun np_max :: "real list \<Rightarrow> error + real" where
  "np_max [] = Inl ValueError"
| "np_max (x # xs) = Inr (fold max xs x)"

fun np_min :: "real list \<Rightarrow> error + real" where
  "np_min [] = Inl ValueError"
| "np_min (x # xs) = Inr (fold min xs x)"

text \<open>\<open>np.median\<close>: NaN on the empty array, else the middle of the sorted values.\<close>

definition np_median :: "real list \<Rightarrow> flt" where
  "np_median xs =
     (if xs = [] then NaN
      else let s = sort xs; n = length xs
           in if odd n then Fin (s ! (n div 2))
              else Fin ((s ! (n div 2 - 1) + s ! (n div 2)) / 2))"

text \<open>\<open>a // b\<close> on Python integers: floor division, ZeroDivisionError for \<open>b = 0\<close>.\<close>

definition py_floordiv :: "int \<Rightarrow> int \<Rightarrow> error + int" where
  "py_floordiv a b = (if b = 0 then Inl ZeroDivisionError else Inr (a div b))"

text \<open>\<open>np.log10\<close>, \<open>10 ** x\<close> and \<open>np.sqrt\<close> on one double.\<close>

definition np_log10 :: "real \<Rightarrow> flt" where
  "np_log10 x = (if x > 0 then Fin (log 10 x) else if x = 0 then NegInf else NaN)"

fun pow10 :: "flt \<Rightarrow> flt" where
  "pow10 NaN = NaN"
| "pow10 NegInf = Fin 0"
| "pow10 (Fin x) = Fin (10 powr x)"
| "pow10 PosInf = PosInf"

definition np_sqrt :: "real \<Rightarrow> flt" where
  "np_sqrt x = (if x < 0 then NaN else Fin (sqrt x))"

text \<open>A value that is not negative: a finite value from zero up, or plus infinity.\<close>

fun flt_nonneg :: "flt \<Rightarrow> bool" where
  "flt_nonneg (Fin x) = (0 \<le> x)"
| "flt_nonneg PosInf = True"
| "flt_nonneg _ = False"

fun is_fin :: "flt \<Rightarrow> bool" where
  "is_fin (Fin x) = True"
| "is_fin _ = False"

fun fin_val :: "flt \<Rightarrow> real" where
  "fin_val (Fin x) = x"
| "fin_val _ = 0"

subsection \<open>The interpolant (scipy.interpolate.interp1d, linear, bounds_error=False)\<close>

text \<open>
  \<open>interp1d(x, y, bounds_error=False)\<close> is a library call. The arrays must have the
  same length and at least one entry (ValueError otherwise). With
  \<open>assume_sorted=False\<close> the samples are sorted by \<open>x\<close> with a stable sort that puts
  NaN last. A call returns NaN for a NaN argument and for an argument with
  \<open>x_new < x[0]\<close> or \<open>x_new > x[-1]\<close> (the default fill value; both comparisons are
  false against a NaN sample). Inside the bounds and on finite samples it returns the
  piecewise-linear value as \<open>np.interp\<close> computes it: on the last segment whose left end
  is \<open>\<le> x_new\<close>. Inside the bounds with a NaN or infinite sample the value follows
  numpy's search through the non-finite entries; it is taken as a parameter,
  \<open>nonfinite\<close>. The interpolant is kept as its first sample and the rest.
\<close>

type_synonym sample = "flt \<times> flt"

type_synonym interpolant = "sample \<times> sample list"

text \<open>The order of the sort: minus infinity, the finite values, plus infinity, NaN.\<close>

definition sorts_before :: "flt \<Rightarrow> flt \<Rightarrow> bool" where
  "sorts_before a b =
     (case b of
        NaN \<Rightarrow> True
      | _ \<Rightarrow> (case a of NaN \<Rightarrow> False | _ \<Rightarrow> \<not> flt_less b a))"

fun insort_sample :: "sample \<Rightarrow> sample list \<Rightarrow> sample list" where
  "insort_sample p [] = [p]"
| "insort_sample p (q # qs) =
     (if sorts_before (fst p) (fst q) then p # q # qs else q # insort_sample p qs)"

definition sort_samples :: "sample list \<Rightarrow> sample list" where
  "sort_samples ps = foldr insort_sample ps []"

definition interp1d :: "flt list \<Rightarrow> flt list \<Rightarrow> error + interpolant" where
  "interp1d x y =
     (if length x \<noteq> length y then Inl ValueError
      else case sort_samples (zip x y) of
             [] \<Rightarrow> Inl ValueError
           | p # ps \<Rightarrow> Inr (p, ps))"

fun np_interp :: "real \<times> real \<Rightarrow> (real \<times> real) list \<Rightarrow> real \<Rightarrow> real" where
  "np_interp (x0, y0) [] x = y0"
| "np_interp (x0, y0) ((x1, y1) # ps) x =
     (if x < x1
      then (if x = x0 then y0 else (y1 - y0) / (x1 - x0) * (x - x0) + y0)
      else np_interp (x1, y1) ps x)"

definition fin_sample :: "real \<times> real \<Rightarrow> sample" where
  "fin_sample p = (Fin (fst p), Fin (snd p))"

definition fin_pt :: "sample \<Rightarrow> real \<times> real" where
  "fin_pt p = (fin_val (fst p), fin_val (snd p))"

definition finite_samples :: "sample list \<Rightarrow> bool" where
  "finite_samples ps = list_all (\<lambda>p. is_fin (fst p) \<and> is_fin (snd p)) ps"

definition interp_call :: "(sample list \<Rightarrow> flt \<Rightarrow> flt) \<Rightarrow> interpolant \<Rightarrow> flt \<Rightarrow> flt" where
  "interp_call nonfinite f x =
     (let pts = fst f # snd f
      in if x = NaN then NaN
         else if flt_less x (fst (fst f)) \<or> flt_less (fst (last pts)) x then NaN
         else case x of
                Fin v \<Rightarrow>
                  (if finite_samples pts
                   then Fin (np_interp (fin_pt (fst f)) (map fin_pt (snd f)) v)
                   else nonfinite pts x)
              | _ \<Rightarrow> nonfinite pts x)"

subsection \<open>The circular-reference mapper in by-energy mode (decomp, lines 150-168)\<close>

text \<open>
  \<open>E\<close> and \<open>J\<close> are the profile's \<open>E_circ\<close> (in the units of \<open>ke\<close>) and
  \<open>j_circ\<close>, in bin order; \<open>te\<close> is the particles' total energy. The sample points
  handed to \<open>interp1d\<close> are kept as a function of their own, and so is the evaluation,
  before the two edge assignments of lines 163 and 167. The logarithm of a non-positive
  number is NaN or minus infinity; nothing in these lines checks for it.
\<close>

definition interp_samples :: "bool \<Rightarrow> real list \<Rightarrow> real list \<Rightarrow> flt list \<times> flt list" where
  "interp_samples log_interp E J =
     (if log_interp
      then (rev (map (\<lambda>e. np_log10 (- e)) E), rev (map np_log10 J))
      else (map Fin E, map Fin J))"

definition build_j_from_E :: "bool \<Rightarrow> real list \<Rightarrow> real list \<Rightarrow> error + interpolant" where
  "build_j_from_E log_interp E J =
     (let (xs, ys) = interp_samples log_interp E J in interp1d xs ys)"

definition eval_j_from_E ::
  "(sample list \<Rightarrow> flt \<Rightarrow> flt) \<Rightarrow> bool \<Rightarrow> interpolant \<Rightarrow> real \<Rightarrow> flt" where
  "eval_j_from_E nonfinite log_interp f t =
     (if log_interp then pow10 (interp_call nonfinite f (np_log10 (- t)))
      else interp_call nonfinite f (Fin t))"

definition j_circ_by_energy ::
  "(sample list \<Rightarrow> flt \<Rightarrow> flt) \<Rightarrow> bool \<Rightarrow> real list \<Rightarrow> real list \<Rightarrow> real list
     \<Rightarrow> error + flt list" where
  "j_circ_by_energy nonfinite log_interp E J te =
     (case build_j_from_E log_interp E J of
        Inl e \<Rightarrow> Inl e
      | Inr f \<Rightarrow>
          (let jc = map (eval_j_from_E nonfinite log_interp f) te
           in case np_max E of
                Inl e \<Rightarrow> Inl e
              | Inr Emax \<Rightarrow>
                  (let jc1 = set_items (np_where (map (\<lambda>t. t > Emax) te)) PosInf jc
                   in case J of
                        [] \<Rightarrow> Inl IndexError
                      | j0 # _ \<Rightarrow>
                          (case np_min E of
                             Inl e \<Rightarrow> Inl e
                           | Inr Emin \<Rightarrow>
                               Inr (set_items (np_where (map (\<lambda>t. t < Emin) te)) (Fin j0) jc1)))))"

subsection \<open>The particle set, its units and the collaborators\<close>

datatype family = Star | Gas | Dm

type_synonym vec = "real \<times> real \<times> real"

text \<open>
  Modelled from the spec: a unit is a dimension and a scale against the base unit of
  that dimension; a conversion between units of different dimensions is the fatal
  unit mismatch.
\<close>

record units =
  u_dim :: nat
  u_scale :: real

text \<open>
  The fields a snapshot is loaded with, one entry per particle, and the arrays the two
  routines attach. \<open>decomp_array\<close> is the \<open>decomp\<close> array of the star family (one entry
  per star); an absent array is \<open>None\<close>.
\<close>

record particle_data =
  families :: "family list"
  pos :: "vec list"
  vel :: "vec list"
  mass :: "real list"
  eps :: "real list"
  phi :: "real list"
  phi_units :: units

record snapshot = particle_data +
  te :: "real list option"
  j_circ :: "flt list option"
  E_circ :: "real list option"
  jz_by_jzcirc :: "flt list option"
  decomp_array :: "int list option"
  jcirc2 :: "real list option"
  jcirc :: "flt list option"

text \<open>
  A transformation moves positions and velocities
  (\<open>transformation.NullTransformation\<close>, \<open>angmom.faceon\<close>).
\<close>

record transformation =
  apply_pos :: "vec \<Rightarrow> vec"
  apply_vel :: "vec \<Rightarrow> vec"

text \<open>
  Modelled from the spec: a reference profile carries, per radial bin, its potential, its
  circular angular momentum and its circular energy; the source relies on a shift of the
  profile's potential being reflected in \<open>E_circ\<close> (comment at line 142), so the circular
  energy is the potential plus a part that does not depend on it.
\<close>

record profile =
  pro_phi :: "real list"
  pro_kin :: "real list"
  pro_j_circ :: "real list"

definition pro_E_circ :: "profile \<Rightarrow> real list" where
  "pro_E_circ p = map2 (+) (pro_kin p) (pro_phi p)"

text \<open>
  The quantile profile: the bin of every particle of the population it was built on, and
  the quantile of the binned quantity in every bin.
\<close>

record quantile_profile =
  qp_bin_of :: "nat list"
  qp_j2 :: "real list"

text \<open>
  The code outside this module that \<open>decomp\<close> and \<open>estimate_jcirc_from_energy\<close> call,
  as parameters: the alignment, the derived arrays \<open>ke\<close>, \<open>j\<close> and \<open>vcxy\<close> (functions of a
  particle's position and velocity), the disc filter, the equal-population radial
  profile, the radial bin of a position, the root finder, the equal-population binning of
  a quantity and the quantile of a sample. The alignment and the profile read the loaded
  fields only. Two more parameters stand for what the library calls leave open: the value
  of the interpolant inside its bounds on non-finite samples, and the content of a newly
  created integer array.
\<close>

record collab =
  faceon :: "particle_data \<Rightarrow> string \<Rightarrow> error + transformation"
  ke_of :: "vec \<Rightarrow> real"
  ke_units :: units
  j_of :: "vec \<Rightarrow> vec \<Rightarrow> vec"
  vcxy_of :: "vec \<Rightarrow> vec \<Rightarrow> real"
  Disc :: "string \<Rightarrow> real \<Rightarrow> vec \<Rightarrow> bool"
  Profile :: "particle_data \<Rightarrow> nat list \<Rightarrow> int \<Rightarrow> error + profile"
  radial_bin :: "profile \<Rightarrow> vec \<Rightarrow> nat"
  bisect :: "real \<Rightarrow> real \<Rightarrow> (real \<Rightarrow> flt) \<Rightarrow> error + real"
  equaln_bins :: "real list \<Rightarrow> int \<Rightarrow> error + nat list"
  quantile_of :: "real \<Rightarrow> real list \<Rightarrow> real"
  interp_nonfinite :: "sample list \<Rightarrow> flt \<Rightarrow> flt"
  fresh_int :: "nat \<Rightarrow> int"

text \<open>The keyword arguments of \<open>decomp\<close> and their defaults (line 46).\<close>

record params =
  aligned :: bool
  j_disk_min :: real
  j_disk_max :: real
  E_cut :: "flt option"
  j_circ_from_r :: bool
  log_interp :: bool
  angmom_size :: string
  particles_per_bin :: int

definition default_params :: params where
  "default_params =
     \<lparr>aligned = False, j_disk_min = 8 / 10, j_disk_max = 11 / 10, E_cut = None,
      j_circ_from_r = False, log_interp = False, angmom_size = ''3 kpc'',
      particles_per_bin = 500\<rparr>"

text \<open>\<open>h.star[name]\<close>: the entries of a per-particle array that belong to stars.\<close>

definition star_items :: "'a snapshot_scheme \<Rightarrow> 'b list \<Rightarrow> 'b list" where
  "star_items h xs = take_items xs (np_where (map (\<lambda>f. f = Star) (families h)))"

definition NullTransformation :: transformation where
  "NullTransformation = \<lparr>apply_pos = (\<lambda>v. v), apply_vel = (\<lambda>v. v)\<rparr>"

definition apply_tx :: "transformation \<Rightarrow> snapshot \<Rightarrow> snapshot" where
  "apply_tx tx h = h\<lparr>pos := map (apply_pos tx) (pos h), vel := map (apply_vel tx) (vel h)\<rparr>"

text \<open>
  Modelled from the spec: a transformation is a scoped resource, and leaving its scope
  restores the original frame. Reverting gives the snapshot the positions and velocities
  it had when the transformation was applied; \<open>original\<close> is the snapshot at that point.
\<close>

definition revert_tx :: "snapshot \<Rightarrow> snapshot \<Rightarrow> snapshot" where
  "revert_tx original h = h\<lparr>pos := pos original, vel := vel original\<rparr>"

subsection \<open>The energy field (decomp, lines 110-126)\<close>

text \<open>
  Modelled from the spec: \<open>a.convert_units(u)\<close> rescales the array \<open>a\<close> in place to the
  unit \<open>u\<close> and raises on units of different dimensions. It is called on the snapshot's
  own \<open>phi\<close> array.
\<close>

definition convert_units :: "units \<Rightarrow> snapshot \<Rightarrow> error + snapshot" where
  "convert_units u h =
     (if u_dim (phi_units h) \<noteq> u_dim u then Inl UnitsException
      else Inr (h\<lparr>phi := map (\<lambda>v. v * (u_scale (phi_units h) / u_scale u)) (phi h),
                  phi_units := u\<rparr>))"

text \<open>
  Modelled from the spec: \<open>h['te'] = a\<close> copies the values of \<open>a\<close> into the snapshot's
  own array of that name, created when absent; the array \<open>a\<close> stays a separate object,
  so a later in-place change of \<open>a\<close> does not reach the snapshot.
\<close>

definition setitem_te :: "real list \<Rightarrow> snapshot \<Rightarrow> snapshot" where
  "setitem_te a h = h\<lparr>te := Some a\<rparr>"

text \<open>
  The local array \<open>te\<close> is shifted at line 123 and the snapshot's array at line 126;
  the local one is not read again before it is rebound at line 186.
\<close>

definition energy_field ::
  "collab \<Rightarrow> snapshot \<Rightarrow> (error + real) \<times> snapshot \<times> log_record list" where
  "energy_field c h =
     (let ke = map (ke_of c) (vel h)
      in case convert_units (ke_units c) h of
           Inl e \<Rightarrow> (Inl e, h, [])
         | Inr h1 \<Rightarrow>
             (let pe = phi h1;
                  te_local = map2 (+) ke pe;
                  h2 = setitem_te te_local h1;
                  te_star = star_items h2 (case te h2 of None \<Rightarrow> [] | Some a \<Rightarrow> a)
              in case np_max te_star of
                   Inl e \<Rightarrow> (Inl e, h2, [])
                 | Inr te_max \<Rightarrow>
                     (let te_local = map (\<lambda>v. v - te_max) te_local;
                          h3 = h2\<lparr>te := map_option (map (\<lambda>v. v - te_max)) (te h2)\<rparr>
                      in (Inr te_max, h3, [Info_te_max te_max]))))"

subsection \<open>The rotation curve (decomp, lines 133-140)\<close>

definition rotation_curve :: "collab \<Rightarrow> int \<Rightarrow> real \<Rightarrow> snapshot \<Rightarrow> error + profile" where
  "rotation_curve c ppb te_max h =
     (case np_min (eps h) of
        Inl e \<Rightarrow> Inl e
      | Inr eps_min \<Rightarrow>
          (let d = np_where (map (Disc c ''1 Mpc'' (eps_min * 3)) (pos h))
           in case py_floordiv (int (length d)) ppb of
                Inl e \<Rightarrow> Inl e
              | Inr nbins \<Rightarrow>
                  (case Profile c (particle_data.truncate h) d nbins of
                     Inl e \<Rightarrow> Inl e
                   | Inr pro_d \<Rightarrow>
                       Inr (pro_d\<lparr>pro_phi := map (\<lambda>v. v - te_max) (pro_phi pro_d)\<rparr>))))"

subsection \<open>The circular reference and the ratio (decomp, lines 145-170)\<close>

text \<open>
  Modelled from the spec: \<open>create_particle_array\<close> broadcasts a bin quantity to every
  particle of the target by radial-bin membership.
\<close>

definition create_particle_array ::
  "collab \<Rightarrow> profile \<Rightarrow> real list \<Rightarrow> snapshot \<Rightarrow> error + real list" where
  "create_particle_array c pro vals h =
     (let bins = map (radial_bin c pro) (pos h)
      in if list_all (\<lambda>b. b < length vals) bins then Inr (map (\<lambda>b. vals ! b) bins)
         else Inl IndexError)"

definition circular_reference ::
  "collab \<Rightarrow> bool \<Rightarrow> bool \<Rightarrow> profile \<Rightarrow> snapshot \<Rightarrow> (error + unit) \<times> snapshot" where
  "circular_reference c from_r log_i pro_d h =
     (if from_r
      then (case create_particle_array c pro_d (pro_j_circ pro_d) h of
              Inl e \<Rightarrow> (Inl e, h)
            | Inr jc \<Rightarrow>
                (let h1 = h\<lparr>j_circ := Some (map Fin jc)\<rparr>
                 in case create_particle_array c pro_d (pro_E_circ pro_d) h1 of
                      Inl e \<Rightarrow> (Inl e, h1)
                    | Inr ec \<Rightarrow> (Inr (), h1\<lparr>E_circ := Some ec\<rparr>)))
      else (case te h of
              None \<Rightarrow> (Inl KeyError, h)
            | Some t \<Rightarrow>
                (case j_circ_by_energy (interp_nonfinite c) log_i (pro_E_circ pro_d)
                        (pro_j_circ pro_d) t of
                   Inl e \<Rightarrow> (Inl e, h)
                 | Inr jc \<Rightarrow> (Inr (), h\<lparr>j_circ := Some jc\<rparr>))))"

definition ratio_field :: "collab \<Rightarrow> snapshot \<Rightarrow> (error + unit) \<times> snapshot" where
  "ratio_field c h =
     (case j_circ h of
        None \<Rightarrow> (Inl KeyError, h)
      | Some jc \<Rightarrow>
          (let jz = map2 (\<lambda>p v. snd (snd (j_of c p v))) (pos h) (vel h)
           in (Inr (), h\<lparr>jz_by_jzcirc := Some (map2 flt_div jz jc)\<rparr>)))"

subsection \<open>Labelling the stars (decomp, lines 171-217)\<close>

definition classify ::
  "collab \<Rightarrow> real \<Rightarrow> real \<Rightarrow> flt option \<Rightarrow> snapshot
     \<Rightarrow> (error + unit) \<times> snapshot \<times> log_record list" where
  "classify c jmin jmax ecut h =
     (case (jz_by_jzcirc h, te h) of
        (Some ratio_all, Some te_all) \<Rightarrow>
          (let JzJcirc = star_items h ratio_all;
               dec0 = create_decomp (fresh_int c) (length JzJcirc) (decomp_array h);
               h1 = h\<lparr>decomp_array := Some (pass1 jmin jmax JzJcirc dec0)\<rparr>;
               V = star_items h1 (map2 (vcxy_of c) (pos h1) (vel h1));
               te_s = star_items h1 te_all
           in case bisect c 0 5 (objective V JzJcirc) of
                Inl e \<Rightarrow> (Inl e, h1, [Info_finding_boundary])
              | Inr jc \<Rightarrow>
                  (let (jcrit, warnings) = reset_j_crit jmin jc;
                       ec = (case ecut of None \<Rightarrow> np_median te_s | Some e \<Rightarrow> e);
                       h2 = h1\<lparr>decomp_array :=
                              map_option (pass2 jmin jmax jcrit ec te_s JzJcirc) (decomp_array h1)\<rparr>
                   in (Inr (), h2,
                       [Info_finding_boundary, Info_j_crit jc] @ warnings @ [Info_E_cut ec])))
      | _ \<Rightarrow> (Inl KeyError, h, []))"

subsection \<open>decomp\<close>

definition decomp_body ::
  "collab \<Rightarrow> params \<Rightarrow> snapshot \<Rightarrow> (error + profile) \<times> snapshot \<times> log_record list" where
  "decomp_body c P h =
     (case energy_field c h of
        (Inl e, h1, l1) \<Rightarrow> (Inl e, h1, l1)
      | (Inr te_max, h1, l1) \<Rightarrow>
          (case rotation_curve c (particles_per_bin P) te_max h1 of
             Inl e \<Rightarrow> (Inl e, h1, l1 @ [Info_making_curve])
           | Inr pro_d \<Rightarrow>
               (case circular_reference c (j_circ_from_r P) (log_interp P) pro_d h1 of
                  (Inl e, h2) \<Rightarrow> (Inl e, h2, l1 @ [Info_making_curve])
                | (Inr _, h2) \<Rightarrow>
                    (case ratio_field c h2 of
                       (Inl e, h3) \<Rightarrow> (Inl e, h3, l1 @ [Info_making_curve])
                     | (Inr _, h3) \<Rightarrow>
                         (case classify c (j_disk_min P) (j_disk_max P) (E_cut P) h3 of
                            (Inl e, h4, l4) \<Rightarrow> (Inl e, h4, l1 @ [Info_making_curve] @ l4)
                          | (Inr _, h4, l4) \<Rightarrow>
                              (Inr pro_d, h4, l1 @ [Info_making_curve] @ l4))))))"

text \<open>
  Lines 102-107 and 220: the transformation is in force while the body runs and is
  reverted when the \<open>with\<close> block is left, by a return or by an exception: the one
  branch below covers both outcomes of the body.
\<close>

definition transformation_for :: "collab \<Rightarrow> params \<Rightarrow> snapshot \<Rightarrow> error + transformation" where
  "transformation_for c P h =
     (if aligned P then Inr NullTransformation
      else faceon c (particle_data.truncate h) (angmom_size P))"

definition decomp ::
  "collab \<Rightarrow> params \<Rightarrow> snapshot \<Rightarrow> (error + profile) \<times> snapshot \<times> log_record list" where
  "decomp c P h =
     (case transformation_for c P h of
        Inl e \<Rightarrow> (Inl e, h, [])
      | Inr tx \<Rightarrow>
          (case decomp_body c P (apply_tx tx h) of
             (r, h', l) \<Rightarrow> (r, revert_tx h h', l)))"

subsection \<open>Notions used to state the properties\<close>

text \<open>Every loaded per-particle array has one entry per particle, the \<open>decomp\<close> array
  (when present) one entry per star.\<close>

definition n_star :: "'a snapshot_scheme \<Rightarrow> nat" where
  "n_star h = length (filter (\<lambda>f. f = Star) (families h))"

definition well_formed :: "snapshot \<Rightarrow> bool" where
  "well_formed h \<longleftrightarrow>
     length (pos h) = length (families h) \<and> length (vel h) = length (families h)
     \<and> length (mass h) = length (families h) \<and> length (eps h) = length (families h)
     \<and> length (phi h) = length (families h)
     \<and> (case decomp_array h of None \<Rightarrow> True | Some d \<Rightarrow> length d = n_star h)"

text \<open>The value of \<open>ke + pe\<close> at line 115: kinetic plus potential energy of every
  particle, the potential converted to the units of \<open>ke\<close>.\<close>

definition ke_plus_pe :: "collab \<Rightarrow> snapshot \<Rightarrow> real list" where
  "ke_plus_pe c h =
     map2 (+) (map (ke_of c) (vel h))
              (map (\<lambda>v. v * (u_scale (phi_units h) / u_scale (ke_units c))) (phi h))"

subsection \<open>estimate_jcirc_from_energy (lines 15-42)\<close>

text \<open>
  Modelled from the spec: \<open>profile.QuantileProfile(h, q=(quantile,), nbins=nbins,
  type='equaln', calc_x=te)\<close> bins the population into \<open>nbins\<close> equal-population bins of
  total energy and holds, for each bin, the given quantile of the squared scalar angular
  momentum \<open>j2\<close> of the particles in it; \<open>j2\<close> is the squared length of \<open>j\<close>.
\<close>

definition j2_of :: "collab \<Rightarrow> vec \<Rightarrow> vec \<Rightarrow> real" where
  "j2_of c p v = (case j_of c p v of (jx, jy, jz) \<Rightarrow> jx * jx + jy * jy + jz * jz)"

definition QuantileProfile ::
  "collab \<Rightarrow> snapshot \<Rightarrow> real \<Rightarrow> int \<Rightarrow> error + quantile_profile" where
  "QuantileProfile c h q nbins =
     (case te h of
        None \<Rightarrow> Inl KeyError
      | Some t \<Rightarrow>
          (case equaln_bins c t nbins of
             Inl e \<Rightarrow> Inl e
           | Inr bins \<Rightarrow>
               (let j2 = map2 (j2_of c) (pos h) (vel h)
                in Inr \<lparr>qp_bin_of = bins,
                        qp_j2 = map (\<lambda>b. quantile_of c q
                                       (take_items j2 (np_where (map (\<lambda>k. k = b) bins))))
                                    [0..<nat nbins]\<rparr>)))"

text \<open>
  Modelled from the spec: the quantile profile's \<open>create_particle_array\<close> maps the bin
  value back to every particle of the target by its bin.
\<close>

definition qp_create_particle_array :: "quantile_profile \<Rightarrow> error + real list" where
  "qp_create_particle_array pro =
     (if list_all (\<lambda>b. b < length (qp_j2 pro)) (qp_bin_of pro)
      then Inr (map (\<lambda>b. qp_j2 pro ! b) (qp_bin_of pro))
      else Inl IndexError)"

definition estimate_jcirc_from_energy ::
  "collab \<Rightarrow> snapshot \<Rightarrow> int \<Rightarrow> real \<Rightarrow> (error + quantile_profile) \<times> snapshot" where
  "estimate_jcirc_from_energy c h ppb quantile =
     (case py_floordiv (int (length (families h))) ppb of
        Inl e \<Rightarrow> (Inl e, h)
      | Inr nbins \<Rightarrow>
          (case QuantileProfile c h quantile nbins of
             Inl e \<Rightarrow> (Inl e, h)
           | Inr pro_d \<Rightarrow>
               (case qp_create_particle_array pro_d of
                  Inl e \<Rightarrow> (Inl e, h)
                | Inr a \<Rightarrow>
                    (let h1 = h\<lparr>jcirc2 := Some a\<rparr>;
                         h2 = h1\<lparr>jcirc := map_option (map np_sqrt) (jcirc2 h1)\<rparr>
                     in (Inr pro_d, h2)))))"

text \<open>The call with the default keyword arguments of line 15.\<close>

definition estimate_jcirc_from_energy_default ::
  "collab \<Rightarrow> snapshot \<Rightarrow> (error + quantile_profile) \<times> snapshot" where
  "estimate_jcirc_from_energy_default c h = estimate_jcirc_from_energy c h 500 (99 / 100)"

text \<open>The loaded arrays other than the potential, and the estimator's two arrays, are the
  same in two snapshots.\<close>

definition same_loaded :: "snapshot \<Rightarrow> snapshot \<Rightarrow> bool" where
  "same_loaded h h' \<longleftrightarrow>
     families h' = families h \<and> pos h' = pos h \<and> vel h' = vel h \<and> mass h' = mass h
     \<and> eps h' = eps h \<and> jcirc2 h' = jcirc2 h \<and> jcirc h' = jcirc h"

subsection \<open>A small galaxy and simple collaborators, for the examples\<close>

text \<open>
  A root finder in the shape the spec gives for \<open>util.bisect\<close>: a fixed number of
  halvings of the interval, going right where the objective is negative. The example
  interpolant on non-finite samples gives the \<open>y\<close> of a sample that is hit exactly and
  NaN otherwise; a new integer array holds zeros.
\<close>

fun bisect_steps :: "nat \<Rightarrow> real \<Rightarrow> real \<Rightarrow> (real \<Rightarrow> flt) \<Rightarrow> real" where
  "bisect_steps 0 l r f = (l + r) / 2"
| "bisect_steps (Suc n) l r f =
     (let mid = (l + r) / 2
      in if flt_lt (f mid) 0 then bisect_steps n mid r f else bisect_steps n l mid f)"

definition shift_x :: "real \<Rightarrow> vec \<Rightarrow> vec" where
  "shift_x d p = (case p of (x, y, z) \<Rightarrow> (x + d, y, z))"

definition ex_collab :: collab where
  "ex_collab =
     \<lparr>faceon = (\<lambda>d size.
         Inr \<lparr>apply_pos = shift_x (-1), apply_vel = (\<lambda>v. v)\<rparr>),
      ke_of = (\<lambda>v. case v of (vx, vy, vz) \<Rightarrow> (vx * vx + vy * vy + vz * vz) / 2),
      ke_units = \<lparr>u_dim = 0, u_scale = 1\<rparr>,
      j_of = (\<lambda>p v. case (p, v) of ((x, y, z), (vx, vy, vz)) \<Rightarrow>
                (y * vz - z * vy, z * vx - x * vz, x * vy - y * vx)),
      vcxy_of = (\<lambda>p v. case v of (vx, vy, vz) \<Rightarrow> vy),
      Disc = (\<lambda>radius height p. case p of (x, y, z) \<Rightarrow> \<bar>z\<bar> \<le> height),
      Profile = (\<lambda>d idx nbins.
         if nbins \<le> 0 then Inl (CollaboratorError ''no bins'')
         else Inr \<lparr>pro_phi = [-4, -1], pro_kin = [1, 0], pro_j_circ = [1, 3]\<rparr>),
      radial_bin = (\<lambda>pro p. case p of (x, y, z) \<Rightarrow> if \<bar>x\<bar> \<le> 1 then 0 else 1),
      bisect = (\<lambda>l r f. Inr (bisect_steps (Suc (Suc 0)) l r f)),
      equaln_bins = (\<lambda>xs nbins.
         if nbins \<le> 0 then Inl (CollaboratorError ''no bins'')
         else Inr (map (\<lambda>x. if x < -1 then 0 else nat nbins - 1) xs)),
      quantile_of = (\<lambda>q xs. fold max xs 0),
      interp_nonfinite = (\<lambda>pts x. case filter (\<lambda>p. fst p = x) pts of
                                        [] \<Rightarrow> NaN | p # _ \<Rightarrow> snd p),
      fresh_int = (\<lambda>i. 0)\<rparr>"

text \<open>The same collaborators with a profile of negative circular energies, for the
  log-interpolated variant.\<close>

definition ex_collab_log :: collab where
  "ex_collab_log =
     ex_collab\<lparr>Profile := (\<lambda>d idx nbins.
        Inr \<lparr>pro_phi = [-3, -21 / 10], pro_kin = [1, 1], pro_j_circ = [1, 10]\<rparr>)\<rparr>"

text \<open>The same collaborators with a profile whose outer bin has a positive circular
  energy, and with a profile whose inner bin has a negative circular angular momentum.\<close>

definition ex_collab_unbound :: collab where
  "ex_collab_unbound =
     ex_collab\<lparr>Profile := (\<lambda>d idx nbins.
        Inr \<lparr>pro_phi = [-3, -1], pro_kin = [1, 1], pro_j_circ = [1, 10]\<rparr>)\<rparr>"

definition ex_collab_retrograde :: collab where
  "ex_collab_retrograde =
     ex_collab\<lparr>Profile := (\<lambda>d idx nbins.
        Inr \<lparr>pro_phi = [-4, -1], pro_kin = [1, 0], pro_j_circ = [-3, 1]\<rparr>)\<rparr>"

text \<open>
  Four particles on the x axis, three of them stars: one on a circular orbit, one at
  rest, one whose ratio comes out as exactly \<open>j_disk_max\<close>. The potential is stored in a
  unit twice the unit of the kinetic energy.
\<close>

definition ex_snapshot :: snapshot where
  "ex_snapshot =
     \<lparr>families = [Star, Star, Star, Gas],
      pos = [(1, 0, 0), (1, 0, 0), (11 / 10, 0, 0), (2, 0, 0)],
      vel = [(0, 2, 0), (0, 0, 0), (0, 2, 0), (0, 1, 0)],
      mass = [1, 1, 1, 1],
      eps = [1 / 10, 1 / 10, 1 / 10, 1 / 5],
      phi = [-2, -1 / 2, -2, -3 / 4],
      phi_units = \<lparr>u_dim = 0, u_scale = 2\<rparr>,
      te = None, j_circ = None, E_circ = None, jz_by_jzcirc = None,
      decomp_array = None, jcirc2 = None, jcirc = None\<rparr>"

definition ex_params :: params where
  "ex_params = default_params\<lparr>aligned := True, particles_per_bin := 2\<rparr>"

section \<open>Properties\<close>

subsection \<open>Unfolding the model on concrete inputs\<close>

lemmas model_defs = decomp_def transformation_for_def decomp_body_def energy_field_def convert_units_def setitem_te_def
  rotation_curve_def circular_reference_def ratio_field_def classify_def
  create_particle_array_def j_circ_by_energy_def build_j_from_E_def interp_samples_def
  eval_j_from_E_def interp1d_def interp_call_def star_items_def take_items_def np_where_def
  set_items_def mask_and_def mask_or_def pass1_def pass2_def create_decomp_def objective_def
  np_mean_def reset_j_crit_def py_floordiv_def pro_E_circ_def apply_tx_def revert_tx_def
  NullTransformation_def particle_data.truncate_def default_params_def sort_samples_def
  sorts_before_def flt_less_def fin_pt_def finite_samples_def

lemmas ex_defs = ex_collab_def ex_snapshot_def ex_params_def shift_x_def

lemma ex_median: "np_median [-1, 0, -1] = Fin (-1)"
  by code_simp

text \<open>The example galaxy, decomposed as it is and after the example alignment.\<close>

lemma ex_run:
  "decomp ex_collab ex_params ex_snapshot =
     (Inr \<lparr>pro_phi = [-3, 0], pro_kin = [1, 0], pro_j_circ = [1, 3]\<rparr>,
      ex_snapshot\<lparr>phi := [-4, -1, -4, -3 / 2], phi_units := \<lparr>u_dim = 0, u_scale = 1\<rparr>,
        te := Some [-1, 0, -1, 0], j_circ := Some [Fin 2, Fin 3, Fin 2, Fin 3],
        jz_by_jzcirc := Some [Fin 1, Fin 0, Fin (11 / 10), Fin (2 / 3)],
        decomp_array := Some [1, 2, 0]\<rparr>,
      [Info_te_max (-1), Info_making_curve, Info_finding_boundary, Info_j_crit (5 / 8),
       Info_E_cut (Fin (-1))])"
  by (simp add: model_defs ex_defs Let_def ex_median)

lemma ex_run_faceon:
  "decomp ex_collab (ex_params\<lparr>aligned := False\<rparr>) ex_snapshot =
     (Inr \<lparr>pro_phi = [-3, 0], pro_kin = [1, 0], pro_j_circ = [1, 3]\<rparr>,
      ex_snapshot\<lparr>phi := [-4, -1, -4, -3 / 2], phi_units := \<lparr>u_dim = 0, u_scale = 1\<rparr>,
        te := Some [-1, 0, -1, 0], j_circ := Some [Fin 2, Fin 3, Fin 2, Fin 3],
        jz_by_jzcirc := Some [Fin 0, Fin 0, Fin (1 / 10), Fin (1 / 3)],
        decomp_array := Some [3, 2, 3]\<rparr>,
      [Info_te_max (-1), Info_making_curve, Info_finding_boundary, Info_j_crit (5 / 8),
       Info_E_cut (Fin (-1))])"
  by (simp add: model_defs ex_defs Let_def ex_median)

lemma ex_run_log:
  "decomp ex_collab_log (ex_params\<lparr>log_interp := True\<rparr>) ex_snapshot =
     (Inr \<lparr>pro_phi = [-2, -11 / 10], pro_kin = [1, 1], pro_j_circ = [1, 10]\<rparr>,
      ex_snapshot\<lparr>phi := [-4, -1, -4, -3 / 2], phi_units := \<lparr>u_dim = 0, u_scale = 1\<rparr>,
        te := Some [-1, 0, -1, 0], j_circ := Some [Fin 1, PosInf, Fin 1, PosInf],
        jz_by_jzcirc := Some [Fin 2, Fin 0, Fin (11 / 5), Fin 0],
        decomp_array := Some [5, 2, 5]\<rparr>,
      [Info_te_max (-1), Info_making_curve, Info_finding_boundary, Info_j_crit (5 / 8),
       Info_E_cut (Fin (-1))])"
  by (simp add: model_defs ex_defs ex_collab_log_def Let_def ex_median np_log10_def log_divide)


text \<open>The example galaxy against a profile with a positive circular energy, in the
  log-interpolated variant, and against a profile with a negative circular angular
  momentum, in the linear variant.\<close>

lemma ex_run_unbound:
  "decomp ex_collab_unbound (ex_params\<lparr>log_interp := True\<rparr>) ex_snapshot =
     (Inr \<lparr>pro_phi = [-2, 0], pro_kin = [1, 1], pro_j_circ = [1, 10]\<rparr>,
      ex_snapshot\<lparr>phi := [-4, -1, -4, -3 / 2], phi_units := \<lparr>u_dim = 0, u_scale = 1\<rparr>,
        te := Some [-1, 0, -1, 0], j_circ := Some [Fin 1, NaN, Fin 1, NaN],
        jz_by_jzcirc := Some [Fin 2, NaN, Fin (11 / 5), NaN],
        decomp_array := Some [5, 0, 5]\<rparr>,
      [Info_te_max (-1), Info_making_curve, Info_finding_boundary, Info_j_crit (5 / 8),
       Info_E_cut (Fin (-1))])"
  by (simp add: model_defs ex_defs ex_collab_unbound_def Let_def ex_median np_log10_def)

lemma ex_run_retrograde:
  "decomp ex_collab_retrograde ex_params ex_snapshot =
     (Inr \<lparr>pro_phi = [-3, 0], pro_kin = [1, 0], pro_j_circ = [-3, 1]\<rparr>,
      ex_snapshot\<lparr>phi := [-4, -1, -4, -3 / 2], phi_units := \<lparr>u_dim = 0, u_scale = 1\<rparr>,
        te := Some [-1, 0, -1, 0], j_circ := Some [Fin (-1), Fin 1, Fin (-1), Fin 1],
        jz_by_jzcirc := Some [Fin (-2), Fin 0, Fin (-11 / 5), Fin 2],
        decomp_array := Some [3, 2, 3]\<rparr>,
      [Info_te_max (-1), Info_making_curve, Info_finding_boundary, Info_j_crit (5 / 8),
       Info_E_cut (Fin (-1))])"
  by (simp add: model_defs ex_defs ex_collab_retrograde_def Let_def ex_median)

subsection \<open>Indexed assignment and the two passes\<close>

lemma length_set_items [simp]: "length (set_items idx v xs) = length xs"
  unfolding set_items_def by (induction idx arbitrary: xs) auto

lemma nth_set_items:
  "i < length xs \<Longrightarrow> set_items idx v xs ! i = (if i \<in> set idx then v else xs ! i)"
  unfolding set_items_def
proof (induction idx arbitrary: xs)
  case Nil
  then show ?case by simp
next
  case (Cons a idx)
  then show ?case by (cases "a = i") auto
qed

lemma set_np_where: "set (np_where m) = {i. i < length m \<and> m ! i}"
  unfolding np_where_def by auto

lemma length_mask_and [simp]: "length (mask_and a b) = min (length a) (length b)"
  unfolding mask_and_def by simp

lemma length_mask_or [simp]: "length (mask_or a b) = min (length a) (length b)"
  unfolding mask_or_def by simp

lemma nth_mask_and:
  "i < length a \<Longrightarrow> i < length b \<Longrightarrow> mask_and a b ! i = (a ! i \<and> b ! i)"
  unfolding mask_and_def by simp

lemma nth_mask_or:
  "i < length a \<Longrightarrow> i < length b \<Longrightarrow> mask_or a b ! i = (a ! i \<or> b ! i)"
  unfolding mask_or_def by simp

lemma length_pass1 [simp]: "length (pass1 lo hi rs dec) = length dec"
  unfolding pass1_def by (simp add: Let_def)

lemma length_pass2 [simp]: "length (pass2 lo hi jc ec ts rs dec) = length dec"
  unfolding pass2_def by (simp add: Let_def)

text \<open>What each pass leaves at one star's position.\<close>

lemma nth_pass1:
  assumes "i < length dec" "length rs = length dec"
  shows "pass1 lo hi rs dec ! i = (if in_disk lo hi (rs ! i) then 1 else dec ! i)"
  using assms unfolding pass1_def in_disk_def
  by (simp add: Let_def nth_set_items set_np_where nth_mask_and)

lemma nth_pass2:
  assumes "i < length dec" "length rs = length dec" "length ts = length dec"
  shows "pass2 lo hi jc ec ts rs dec ! i =
     (if in_pbulge lo hi jc ec (ts ! i) (rs ! i) then 5
      else if in_thick lo hi jc ec (ts ! i) (rs ! i) then 4
      else if in_bulge jc ec (ts ! i) (rs ! i) then 3
      else if in_halo jc ec (ts ! i) (rs ! i) then 2
      else dec ! i)"
  using assms unfolding pass2_def in_pbulge_def in_thick_def in_bulge_def in_halo_def
  by (auto simp add: Let_def nth_set_items set_np_where nth_mask_and nth_mask_or)

subsection \<open>Disk-band stars keep their label\<close>

text \<open>
  Claim C5. A star that pass 1 labels 1, that is one whose ratio lies strictly between
  \<open>j_disk_min\<close> and \<open>j_disk_max\<close>, still has label 1 after the four pass-2
  assignments, provided the critical ratio used in pass 2 does not exceed
  \<open>j_disk_min\<close>: none of the halo, bulge, thick-disk and pseudo-bulge rules matches it.
\<close>

theorem disk_band_keeps_label_1:
  assumes "jcrit \<le> jmin"
    and "i < length dec"
    and "length JzJcirc = length dec"
    and "length ts = length dec"
    and "in_disk jmin jmax (JzJcirc ! i)"
  shows "pass1 jmin jmax JzJcirc dec ! i = 1
    \<and> \<not> in_halo jcrit ecut (ts ! i) (JzJcirc ! i)
    \<and> \<not> in_bulge jcrit ecut (ts ! i) (JzJcirc ! i)
    \<and> \<not> in_thick jmin jmax jcrit ecut (ts ! i) (JzJcirc ! i)
    \<and> \<not> in_pbulge jmin jmax jcrit ecut (ts ! i) (JzJcirc ! i)
    \<and> pass2 jmin jmax jcrit ecut ts JzJcirc (pass1 jmin jmax JzJcirc dec) ! i = 1"
proof -
  obtain r where r: "JzJcirc ! i = Fin r" "jmin < r" "r < jmax"
    using assms(5) unfolding in_disk_def by (cases "JzJcirc ! i") auto
  have rules: "\<not> in_halo jcrit ecut (ts ! i) (JzJcirc ! i)"
    "\<not> in_bulge jcrit ecut (ts ! i) (JzJcirc ! i)"
    "\<not> in_thick jmin jmax jcrit ecut (ts ! i) (JzJcirc ! i)"
    "\<not> in_pbulge jmin jmax jcrit ecut (ts ! i) (JzJcirc ! i)"
    using r assms(1) unfolding in_halo_def in_bulge_def in_thick_def in_pbulge_def by auto
  have one: "pass1 jmin jmax JzJcirc dec ! i = 1"
    using assms by (simp add: nth_pass1)
  have "pass2 jmin jmax jcrit ecut ts JzJcirc (pass1 jmin jmax JzJcirc dec) ! i
      = pass1 jmin jmax JzJcirc dec ! i"
    using assms(2,3,4) rules by (simp add: nth_pass2)
  with one rules show ?thesis by simp
qed

theorem disk_band_keeps_label_1_witness:
  "pass2 (8/10) (11/10) (1/2) (Fin (-1)) [-1/2, -2] [Fin 1, Fin (1/4)]
     (pass1 (8/10) (11/10) [Fin 1, Fin (1/4)] [0, 0]) ! 0 = 1
   \<and> in_disk (8/10) (11/10) ([Fin 1, Fin (1/4)] ! 0)"
proof -
  have band: "in_disk (8/10) (11/10) ([Fin 1, Fin (1/4)] ! 0)"
    by (simp add: in_disk_def)
  have "(1/2::real) \<le> 8/10" by simp
  from disk_band_keeps_label_1 [OF this, of 0 "[0, 0]" "[Fin 1, Fin (1/4)]" "[-1/2, -2]"
      "11/10" "Fin (-1)"] band
  show ?thesis by simp
qed

subsection \<open>The rule sets and the ratio boundaries\<close>

text \<open>
  Off the three boundary values of the ratio, and with a finite energy cut and
  \<open>j_crit \<le> j_disk_min \<le> j_disk_max\<close>, exactly one of the five rules matches.
\<close>

lemma rules_partition_off_boundary:
  assumes "jcrit \<le> jmin" "jmin \<le> jmax" "r \<noteq> jcrit" "r \<noteq> jmin" "r \<noteq> jmax"
  shows "(in_disk jmin jmax (Fin r) \<or> in_halo jcrit (Fin ec) e (Fin r)
          \<or> in_bulge jcrit (Fin ec) e (Fin r) \<or> in_thick jmin jmax jcrit (Fin ec) e (Fin r)
          \<or> in_pbulge jmin jmax jcrit (Fin ec) e (Fin r))
    \<and> \<not> (in_disk jmin jmax (Fin r) \<and> in_halo jcrit (Fin ec) e (Fin r))
    \<and> \<not> (in_disk jmin jmax (Fin r) \<and> in_bulge jcrit (Fin ec) e (Fin r))
    \<and> \<not> (in_disk jmin jmax (Fin r) \<and> in_thick jmin jmax jcrit (Fin ec) e (Fin r))
    \<and> \<not> (in_disk jmin jmax (Fin r) \<and> in_pbulge jmin jmax jcrit (Fin ec) e (Fin r))
    \<and> \<not> (in_halo jcrit (Fin ec) e (Fin r) \<and> in_bulge jcrit (Fin ec) e (Fin r))
    \<and> \<not> (in_halo jcrit (Fin ec) e (Fin r) \<and> in_thick jmin jmax jcrit (Fin ec) e (Fin r))
    \<and> \<not> (in_halo jcrit (Fin ec) e (Fin r) \<and> in_pbulge jmin jmax jcrit (Fin ec) e (Fin r))
    \<and> \<not> (in_bulge jcrit (Fin ec) e (Fin r) \<and> in_thick jmin jmax jcrit (Fin ec) e (Fin r))
    \<and> \<not> (in_bulge jcrit (Fin ec) e (Fin r) \<and> in_pbulge jmin jmax jcrit (Fin ec) e (Fin r))
    \<and> \<not> (in_thick jmin jmax jcrit (Fin ec) e (Fin r)
           \<and> in_pbulge jmin jmax jcrit (Fin ec) e (Fin r))"
  using assms unfolding in_disk_def in_halo_def in_bulge_def in_thick_def in_pbulge_def
  by auto

text \<open>On a boundary value of the ratio no rule matches.\<close>

lemma rules_miss_boundary:
  assumes "jcrit \<le> jmin" "jmin \<le> jmax" "r = jcrit \<or> r = jmin \<or> r = jmax"
  shows "\<not> in_disk jmin jmax (Fin r) \<and> \<not> in_halo jcrit ec e (Fin r)
    \<and> \<not> in_bulge jcrit ec e (Fin r) \<and> \<not> in_thick jmin jmax jcrit ec e (Fin r)
    \<and> \<not> in_pbulge jmin jmax jcrit ec e (Fin r)"
  using assms unfolding in_disk_def in_halo_def in_bulge_def in_thick_def in_pbulge_def
  by auto

text \<open>
  Claim C1 (every star gets exactly one label in 1..5; the five rules leave no gap, also
  at the boundary values of the ratio). The docstring of \<open>decomp\<close> lists 1..5 as the
  possible values, and the energy split is closed on one side (\<open>te > E_cut\<close> against
  \<open>te <= E_cut\<close>), but the ratio comparisons are strict on both sides. In the example
  galaxy, run with the default band, the third star has ratio exactly
  \<open>j_disk_max = 1.1\<close>: none of the five rules matches it, nothing is assigned to its
  entry of the \<open>decomp\<close> array, and the entry keeps what the newly created array held
  (0 with the example collaborators).
\<close>

theorem boundary_ratio_star_keeps_label_0:
  "jz_by_jzcirc (fst (snd (decomp ex_collab ex_params ex_snapshot)))
     = Some [Fin 1, Fin 0, Fin (11 / 10), Fin (2 / 3)]
   \<and> decomp_array (fst (snd (decomp ex_collab ex_params ex_snapshot))) = Some [1, 2, 0]
   \<and> \<not> in_disk (8 / 10) (11 / 10) (Fin (11 / 10))
   \<and> \<not> in_halo (5 / 8) (Fin (-1)) (-1) (Fin (11 / 10))
   \<and> \<not> in_bulge (5 / 8) (Fin (-1)) (-1) (Fin (11 / 10))
   \<and> \<not> in_thick (8 / 10) (11 / 10) (5 / 8) (Fin (-1)) (-1) (Fin (11 / 10))
   \<and> \<not> in_pbulge (8 / 10) (11 / 10) (5 / 8) (Fin (-1)) (-1) (Fin (11 / 10))"
  by (simp add: ex_run in_disk_def in_halo_def in_bulge_def in_thick_def in_pbulge_def)

subsection \<open>The critical ratio\<close>

lemma classify_unfold:
  assumes "jz_by_jzcirc h = Some ra" and "te h = Some ta"
  shows "classify c jmin jmax ecut h =
    (let JzJcirc = star_items h ra;
         d1 = pass1 jmin jmax JzJcirc (create_decomp (fresh_int c) (length JzJcirc) (decomp_array h));
         V = star_items h (map2 (vcxy_of c) (pos h) (vel h));
         ts = star_items h ta
     in case bisect c 0 5 (objective V JzJcirc) of
          Inl e \<Rightarrow> (Inl e, h\<lparr>decomp_array := Some d1\<rparr>, [Info_finding_boundary])
        | Inr jc \<Rightarrow>
            (let jcrit = (if jc > jmin then jmin else jc);
                 ec = (case ecut of None \<Rightarrow> np_median ts | Some e \<Rightarrow> e)
             in (Inr (), h\<lparr>decomp_array := Some (pass2 jmin jmax jcrit ec ts JzJcirc d1)\<rparr>,
                 [Info_finding_boundary, Info_j_crit jc]
                 @ (if jc > jmin then [Warning_j_crit_exceeds, Warning_j_crit_reset jmin] else [])
                 @ [Info_E_cut ec])))"
  using assms
  by (simp add: classify_def Let_def star_items_def reset_j_crit_def split: sum.splits
      cong: option.case_cong)

text \<open>
  Claim C2. When the root finder returns a critical ratio above \<open>j_disk_min\<close>, the
  labelling does not fail: the value is replaced by exactly \<open>j_disk_min\<close>, the two
  warnings are logged, and pass 2 runs with the replaced value. In every case the
  critical ratio that pass 2 uses is at most \<open>j_disk_min\<close>.
\<close>

theorem j_crit_reset_to_j_disk_min:
  assumes "jz_by_jzcirc h = Some ra" and "te h = Some ta"
    and "bisect c 0 5 (objective (star_items h (map2 (vcxy_of c) (pos h) (vel h)))
           (star_items h ra)) = Inr jc"
  shows "\<exists>h' l jcrit ec. classify c jmin jmax ecut h = (Inr (), h', l)
     \<and> jcrit = (if jc > jmin then jmin else jc) \<and> jcrit \<le> jmin
     \<and> decomp_array h' = Some (pass2 jmin jmax jcrit ec (star_items h ta) (star_items h ra)
          (pass1 jmin jmax (star_items h ra)
             (create_decomp (fresh_int c) (length (star_items h ra)) (decomp_array h))))
     \<and> (jc > jmin \<longrightarrow> jcrit = jmin \<and> Warning_j_crit_exceeds \<in> set l
           \<and> Warning_j_crit_reset jmin \<in> set l)"
proof -
  let ?ec = "case ecut of None \<Rightarrow> np_median (star_items h ta) | Some e \<Rightarrow> e"
  show ?thesis
    using assms(3)
    by (auto simp add: classify_unfold [OF assms(1,2)] Let_def intro!: exI [of _ ?ec])
qed

theorem j_crit_reset_to_j_disk_min_witness:
  "fst (classify ex_collab (1 / 2) (11 / 10) None
          (ex_snapshot\<lparr>te := Some [-1, 0, -1, 0],
             jz_by_jzcirc := Some [Fin 1, Fin 0, Fin (11 / 10), Fin (2 / 3)]\<rparr>)) = Inr ()
   \<and> Warning_j_crit_reset (1 / 2) \<in> set (snd (snd (classify ex_collab (1 / 2) (11 / 10) None
          (ex_snapshot\<lparr>te := Some [-1, 0, -1, 0],
             jz_by_jzcirc := Some [Fin 1, Fin 0, Fin (11 / 10), Fin (2 / 3)]\<rparr>))))"
proof -
  let ?h = "ex_snapshot\<lparr>te := Some [-1, 0, -1, 0],
             jz_by_jzcirc := Some [Fin 1, Fin 0, Fin (11 / 10), Fin (2 / 3)]\<rparr>"
  have a: "jz_by_jzcirc ?h = Some [Fin 1, Fin 0, Fin (11 / 10), Fin (2 / 3)]"
    and b: "te ?h = Some [-1, 0, -1, 0]"
    by simp_all
  have c: "bisect ex_collab 0 5
      (objective (star_items ?h (map2 (vcxy_of ex_collab) (pos ?h) (vel ?h)))
         (star_items ?h [Fin 1, Fin 0, Fin (11 / 10), Fin (2 / 3)])) = Inr (5 / 8)"
    by (simp add: ex_defs star_items_def take_items_def np_where_def objective_def np_mean_def)
  from j_crit_reset_to_j_disk_min [OF a b c, of "1 / 2" "11 / 10" None]
  show ?thesis by auto
qed

text \<open>
  Claim C10. The objective handed to the root finder is the mean of the rotational
  velocity over the stars with ratio below the candidate threshold. Where no star has a
  ratio below the candidate (every candidate up to the smallest stellar ratio), the
  selection is empty and the mean is NaN. \<open>decomp\<close> hands this objective to the root
  finder as it is: the outcome of the labelling is the outcome of the root finder on it.
\<close>

theorem objective_nan_on_empty_selection:
  assumes "\<forall>r \<in> set JzJcirc. \<not> flt_lt r c"
  shows "objective V JzJcirc c = NaN
    \<and> (jz_by_jzcirc h = Some ra \<and> te h = Some ta \<and> star_items h ra = JzJcirc
         \<and> star_items h (map2 (vcxy_of col) (pos h) (vel h)) = V
       \<longrightarrow> fst (classify col jmin jmax ecut h)
           = (case bisect col 0 5 (objective V JzJcirc) of Inl e \<Rightarrow> Inl e | Inr jc \<Rightarrow> Inr ()))"
proof -
  have "np_where (map (\<lambda>r. flt_lt r c) JzJcirc) = []"
    using assms by (auto simp: np_where_def filter_empty_conv)
  then have "objective V JzJcirc c = NaN"
    by (simp add: objective_def take_items_def np_mean_def)
  moreover have "fst (classify col jmin jmax ecut h)
      = (case bisect col 0 5 (objective V JzJcirc) of Inl e \<Rightarrow> Inl e | Inr jc \<Rightarrow> Inr ())"
    if "jz_by_jzcirc h = Some ra" "te h = Some ta" "star_items h ra = JzJcirc"
       "star_items h (map2 (vcxy_of col) (pos h) (vel h)) = V"
    using that by (simp add: classify_unfold Let_def split: sum.splits)
  ultimately show ?thesis by blast
qed

theorem objective_nan_on_empty_selection_witness:
  "objective [2, 0, 2] [Fin 1, Fin 0, Fin (11 / 10)] 0 = NaN"
proof -
  have a: "\<forall>r \<in> set [Fin 1, Fin 0, Fin (11 / 10)]. \<not> flt_lt r 0" by simp
  from objective_nan_on_empty_selection [OF a, of "[2, 0, 2]"]
  show ?thesis by blast
qed

subsection \<open>The stages of decomp\<close>

lemma np_max_Inr: "np_max xs = Inr M \<longleftrightarrow> xs \<noteq> [] \<and> M = Max (set xs)"
  by (cases xs) (auto simp: Max.set_eq_fold [symmetric])

lemma np_min_Inr: "np_min xs = Inr M \<longleftrightarrow> xs \<noteq> [] \<and> M = Min (set xs)"
  by (cases xs) (auto simp: Min.set_eq_fold [symmetric])

lemma np_max_shift:
  assumes "np_max xs = Inr M"
  shows "np_max (map (\<lambda>v. v - M) xs) = Inr 0"
proof -
  from assms have ne: "xs \<noteq> []" and M: "M = Max (set xs)"
    by (simp_all add: np_max_Inr)
  have "mono (\<lambda>v::real. v - M)" by (simp add: mono_def)
  then have "Max ((\<lambda>v. v - M) ` set xs) = Max (set xs) - M"
    using ne mono_Max_commute [of "\<lambda>v. v - M" "set xs"] by simp
  then show ?thesis using ne M by (simp add: np_max_Inr)
qed

lemma take_items_map:
  "\<forall>i \<in> set idx. i < length xs \<Longrightarrow> take_items (map f xs) idx = map f (take_items xs idx)"
  by (simp add: take_items_def)

lemma star_items_map:
  "length xs = length (families h) \<Longrightarrow> star_items h (map f xs) = map f (star_items h xs)"
  unfolding star_items_def by (rule take_items_map) (simp add: set_np_where)

lemma star_items_families:
  "families h' = families h \<Longrightarrow> star_items h' xs = star_items h xs"
  by (simp add: star_items_def)

lemma decomp_Inr:
  assumes "decomp c P h = (Inr pro, h', l)"
  shows "\<exists>tx hb. transformation_for c P h = Inr tx
     \<and> decomp_body c P (apply_tx tx h) = (Inr pro, hb, l) \<and> h' = revert_tx h hb"
  using assms by (auto simp: decomp_def split: sum.splits prod.splits)

lemma decomp_body_Inr:
  assumes "decomp_body c P h = (Inr pro, h', l)"
  shows "\<exists>M hE lE hC hQ lL. energy_field c h = (Inr M, hE, lE)
     \<and> rotation_curve c (particles_per_bin P) M hE = Inr pro
     \<and> circular_reference c (j_circ_from_r P) (log_interp P) pro hE = (Inr (), hC)
     \<and> ratio_field c hC = (Inr (), hQ)
     \<and> classify c (j_disk_min P) (j_disk_max P) (E_cut P) hQ = (Inr (), h', lL)
     \<and> l = lE @ [Info_making_curve] @ lL"
  using assms by (auto simp: decomp_body_def split: sum.splits prod.splits)

lemma energy_field_unfold:
  "energy_field c h =
     (if u_dim (phi_units h) \<noteq> u_dim (ke_units c) then (Inl UnitsException, h, [])
      else let h1 = h\<lparr>phi := map (\<lambda>v. v * (u_scale (phi_units h) / u_scale (ke_units c))) (phi h),
                      phi_units := ke_units c\<rparr>
           in case np_max (star_items h (ke_plus_pe c h)) of
                Inl e \<Rightarrow> (Inl e, h1\<lparr>te := Some (ke_plus_pe c h)\<rparr>, [])
              | Inr M \<Rightarrow> (Inr M, h1\<lparr>te := Some (map (\<lambda>v. v - M) (ke_plus_pe c h))\<rparr>,
                           [Info_te_max M]))"
  by (simp add: energy_field_def convert_units_def setitem_te_def ke_plus_pe_def Let_def
      star_items_def split: sum.splits)

lemma circular_reference_frame:
  assumes "circular_reference c fr li pro h = (r, h')"
  shows "h' = h\<lparr>j_circ := j_circ h', E_circ := E_circ h'\<rparr>"
  using assms
  by (auto simp: circular_reference_def Let_def split: if_splits sum.splits option.splits)

lemma ratio_field_frame:
  assumes "ratio_field c h = (r, h')"
  shows "h' = h\<lparr>jz_by_jzcirc := jz_by_jzcirc h'\<rparr>"
  using assms by (auto simp: ratio_field_def Let_def split: option.splits)

lemma classify_frame:
  assumes "classify c jmin jmax ecut h = (r, h', l)"
  shows "h' = h\<lparr>decomp_array := decomp_array h'\<rparr>"
  using assms
  by (auto simp: classify_def Let_def split: option.splits sum.splits prod.splits)

lemma energy_field_frame:
  assumes "energy_field c h = (r, h', l)"
  shows "h' = h\<lparr>phi := phi h', phi_units := phi_units h', te := te h'\<rparr>"
  using assms
  by (auto simp: energy_field_unfold Let_def split: if_splits sum.splits)

subsection \<open>The energy reference shift\<close>

text \<open>
  Claim C4. When \<open>decomp\<close> completes on a snapshot whose arrays have one entry per
  particle, the array \<open>te\<close> is present with one entry per particle and holds, for stars
  and other particles alike, the value of \<open>ke + pe\<close> minus one and the same offset: the
  maximum of \<open>ke + pe\<close> over the stars, taken before the shift. The offset is subtracted
  once, and the maximum of the final \<open>te\<close> over the stars is zero.
\<close>

theorem te_shifted_once_by_max_stellar_te:
  assumes "decomp c P h = (Inr pro, h', l)" and "well_formed h"
  shows "\<exists>tx M T. transformation_for c P h = Inr tx
     \<and> np_max (star_items h (ke_plus_pe c (apply_tx tx h))) = Inr M
     \<and> T = map (\<lambda>v. v - M) (ke_plus_pe c (apply_tx tx h))
     \<and> te h' = Some T \<and> length T = length (families h)
     \<and> np_max (star_items h' T) = Inr 0"
proof -
  from decomp_Inr [OF assms(1)] obtain tx hb where
    tx: "transformation_for c P h = Inr tx"
    and body: "decomp_body c P (apply_tx tx h) = (Inr pro, hb, l)"
    and h': "h' = revert_tx h hb" by blast
  let ?h0 = "apply_tx tx h"
  from decomp_body_Inr [OF body] obtain M hE lE hC hQ lL where
    E: "energy_field c ?h0 = (Inr M, hE, lE)"
    and C: "circular_reference c (j_circ_from_r P) (log_interp P) pro hE = (Inr (), hC)"
    and Q: "ratio_field c hC = (Inr (), hQ)"
    and L: "classify c (j_disk_min P) (j_disk_max P) (E_cut P) hQ = (Inr (), hb, lL)"
    by blast
  let ?T0 = "ke_plus_pe c ?h0"
  from E have M: "np_max (star_items ?h0 ?T0) = Inr M"
    and teE: "te hE = Some (map (\<lambda>v. v - M) ?T0)" and famE: "families hE = families ?h0"
    by (auto simp: energy_field_unfold Let_def split: if_splits sum.splits)
  have teb: "te hb = te hE" and famb: "families hb = families hE"
    by (subst classify_frame [OF L], subst ratio_field_frame [OF Q],
        subst circular_reference_frame [OF C], simp)+
  have fam0: "families ?h0 = families h" by (simp add: apply_tx_def)
  have te': "te h' = Some (map (\<lambda>v. v - M) ?T0)" and fam': "families h' = families h"
    using teb teE famb famE fam0 by (simp_all add: h' revert_tx_def)
  have len: "length ?T0 = length (families h)"
    using assms(2) by (simp add: ke_plus_pe_def well_formed_def apply_tx_def)
  have M0: "np_max (star_items h ?T0) = Inr M"
    using M by (simp add: star_items_families [OF fam0])
  have "np_max (star_items h' (map (\<lambda>v. v - M) ?T0)) = Inr 0"
    using np_max_shift [OF M0] len
    by (simp add: star_items_families [OF fam'] star_items_map)
  with tx M0 te' len show ?thesis by simp
qed

theorem te_shifted_once_by_max_stellar_te_witness:
  "well_formed ex_snapshot
   \<and> te (fst (snd (decomp ex_collab ex_params ex_snapshot))) = Some [-1, 0, -1, 0]
   \<and> np_max (star_items (fst (snd (decomp ex_collab ex_params ex_snapshot))) [-1, 0, -1, 0])
       = Inr 0"
proof -
  have wf: "well_formed ex_snapshot"
    by (simp add: well_formed_def ex_snapshot_def)
  from te_shifted_once_by_max_stellar_te [OF ex_run wf] wf
  show ?thesis by (auto simp: ex_run)
qed

subsection \<open>What decomp leaves alone\<close>


lemma same_loaded_trans: "same_loaded a b \<Longrightarrow> same_loaded b d \<Longrightarrow> same_loaded a d"
  by (simp add: same_loaded_def)

lemma energy_field_same: "energy_field c h = (r, h', l) \<Longrightarrow> same_loaded h h'"
  by (subst energy_field_frame, assumption) (simp add: same_loaded_def)

lemma circular_reference_same:
  "circular_reference c fr li pro h = (r, h') \<Longrightarrow> same_loaded h h'"
  by (subst circular_reference_frame, assumption) (simp add: same_loaded_def)

lemma ratio_field_same: "ratio_field c h = (r, h') \<Longrightarrow> same_loaded h h'"
  by (subst ratio_field_frame, assumption) (simp add: same_loaded_def)

lemma classify_same: "classify c jmin jmax ecut h = (r, h', l) \<Longrightarrow> same_loaded h h'"
  by (subst classify_frame, assumption) (simp add: same_loaded_def)



lemma decomp_body_same:
  assumes "decomp_body c P h = (r, h', l)"
  shows "same_loaded h h'"
  using assms unfolding decomp_body_def
  by (auto split: sum.splits prod.splits
      dest!: energy_field_same circular_reference_same ratio_field_same classify_same
      intro: same_loaded_trans)





subsection \<open>Running decomp again\<close>

lemma length_np_where_map: "length (np_where (map P xs)) = length (filter P xs)"
proof -
  have "filter P xs = filter P (map (\<lambda>i. xs ! i) [0..<length xs])"
    by (simp add: map_nth)
  also have "\<dots> = map (\<lambda>i. xs ! i) (filter (\<lambda>i. P (xs ! i)) [0..<length xs])"
    by (simp add: filter_map comp_def)
  finally have "length (filter P xs) = length (filter (\<lambda>i. P (xs ! i)) [0..<length xs])"
    by simp
  moreover have "np_where (map P xs) = filter (\<lambda>i. P (xs ! i)) [0..<length xs]"
    unfolding np_where_def by (auto intro: filter_cong)
  ultimately show ?thesis by simp
qed

lemma length_star_items: "length (star_items h xs) = n_star h"
  by (simp add: star_items_def take_items_def n_star_def length_np_where_map)

text \<open>Labelling a labelled array again with the same thresholds changes nothing.\<close>

lemma relabel_same:
  assumes "length rs = length dec" "length ts = length dec"
  shows "pass2 lo hi jc ec ts rs (pass1 lo hi rs (pass2 lo hi jc ec ts rs (pass1 lo hi rs dec)))
       = pass2 lo hi jc ec ts rs (pass1 lo hi rs dec)"
  using assms by (intro nth_equalityI) (simp_all add: nth_pass1 nth_pass2)

lemma apply_tx_Null [simp]: "apply_tx NullTransformation h = h"
  by (simp add: apply_tx_def NullTransformation_def)

lemma revert_tx_same_loaded: "same_loaded h hb \<Longrightarrow> revert_tx h hb = hb"
  unfolding revert_tx_def same_loaded_def
  by (intro snapshot.equality) simp_all

lemma decomp_aligned:
  assumes "aligned P"
  shows "decomp c P h = decomp_body c P h"
proof -
  obtain r hb l where body: "decomp_body c P h = (r, hb, l)"
    by (cases "decomp_body c P h") auto
  from decomp_body_same [OF body] have "revert_tx h hb = hb"
    by (rule revert_tx_same_loaded)
  with assms body show ?thesis
    by (simp add: decomp_def transformation_for_def)
qed

lemma upd_same:
  "phi h = p \<Longrightarrow> phi_units h = u \<Longrightarrow> te h = t \<Longrightarrow> h\<lparr>phi := p, phi_units := u, te := t\<rparr> = h"
  "j_circ h = j \<Longrightarrow> h\<lparr>j_circ := j\<rparr> = h"
  "j_circ h = j \<Longrightarrow> E_circ h = e \<Longrightarrow> h\<lparr>j_circ := j, E_circ := e\<rparr> = h"
  "jz_by_jzcirc h = x \<Longrightarrow> h\<lparr>jz_by_jzcirc := x\<rparr> = h"
  "decomp_array h = d \<Longrightarrow> h\<lparr>decomp_array := d\<rparr> = h"
  by auto

lemma energy_field_again:
  assumes "energy_field c h = (Inr M, hE, lE)" and "u_scale (ke_units c) \<noteq> 0"
    and "families h2 = families hE" "vel h2 = vel hE" "phi h2 = phi hE"
    and "phi_units h2 = phi_units hE" "te h2 = te hE"
  shows "energy_field c h2 = (Inr M, h2, lE)"
proof -
  from assms(1) have dim: "u_dim (phi_units h) = u_dim (ke_units c)"
    and M: "np_max (star_items h (ke_plus_pe c h)) = Inr M"
    and hE: "hE = h\<lparr>phi := map (\<lambda>v. v * (u_scale (phi_units h) / u_scale (ke_units c))) (phi h),
                     phi_units := ke_units c, te := Some (map (\<lambda>v. v - M) (ke_plus_pe c h))\<rparr>"
    and lE: "lE = [Info_te_max M]"
    by (auto simp: energy_field_unfold Let_def split: if_splits sum.splits)
  have u2: "phi_units h2 = ke_units c" using assms(6) by (simp add: hE)
  have same_phi: "map (\<lambda>v. v * (u_scale (phi_units h2) / u_scale (ke_units c))) (phi h2) = phi h2"
    using assms(2) by (simp add: u2)
  have kp: "ke_plus_pe c h2 = ke_plus_pe c h"
    unfolding ke_plus_pe_def same_phi using assms(4,5) by (simp add: hE)
  have st: "star_items h2 xs = star_items h xs" for xs :: "real list"
    using assms(3) by (simp add: star_items_def hE)
  have te2: "te h2 = Some (map (\<lambda>v. v - M) (ke_plus_pe c h))"
    using assms(7) by (simp add: hE)
  have dim2: "u_dim (phi_units h2) = u_dim (ke_units c)" by (simp add: u2)
  have M2: "np_max (star_items h2 (ke_plus_pe c h2)) = Inr M"
    using M by (simp add: kp st)
  have same: "h2\<lparr>phi := map (\<lambda>v. v * (u_scale (phi_units h2) / u_scale (ke_units c))) (phi h2),
        phi_units := ke_units c, te := Some (map (\<lambda>v. v - M) (ke_plus_pe c h2))\<rparr> = h2"
    unfolding same_phi kp by (rule snapshot.equality) (simp_all add: u2 te2)
  have "energy_field c h2 =
      (Inr M, h2\<lparr>phi := map (\<lambda>v. v * (u_scale (phi_units h2) / u_scale (ke_units c))) (phi h2),
        phi_units := ke_units c, te := Some (map (\<lambda>v. v - M) (ke_plus_pe c h2))\<rparr>, lE)"
    unfolding energy_field_unfold [of c h2] Let_def lE using dim2 M2 by simp
  then show ?thesis unfolding same .
qed


lemma rotation_curve_again:
  assumes "eps h2 = eps h" "pos h2 = pos h"
    and "particle_data.truncate h2 = particle_data.truncate h"
  shows "rotation_curve c ppb M h2 = rotation_curve c ppb M h"
  using assms by (simp add: rotation_curve_def Let_def cong: sum.case_cong)

lemma create_particle_array_pos:
  "pos h2 = pos h \<Longrightarrow> create_particle_array c pro vals h2 = create_particle_array c pro vals h"
  by (simp add: create_particle_array_def)

lemma create_particle_array_upd:
  "create_particle_array c pro vals (h\<lparr>j_circ := x\<rparr>) = create_particle_array c pro vals h"
  by (simp add: create_particle_array_def)

lemma circular_reference_again:
  assumes "circular_reference c fr li pro h = (Inr (), hC)"
    and "pos h2 = pos h" "te h2 = te h" "j_circ h2 = j_circ hC" "E_circ h2 = E_circ hC"
  shows "circular_reference c fr li pro h2 = (Inr (), h2)"
proof (cases fr)
  case True
  from assms(1) True obtain jc ec where
    jc: "create_particle_array c pro (pro_j_circ pro) h = Inr jc"
    and ec: "create_particle_array c pro (pro_E_circ pro) h = Inr ec"
    and hC: "hC = h\<lparr>j_circ := Some (map Fin jc), E_circ := Some ec\<rparr>"
    by (auto simp: circular_reference_def Let_def create_particle_array_upd
        split: sum.splits if_splits)
  have same: "h2\<lparr>j_circ := Some (map Fin jc), E_circ := Some ec\<rparr> = h2"
    by (rule snapshot.equality) (simp_all add: assms(4,5) hC)
  have "circular_reference c fr li pro h2
      = (Inr (), h2\<lparr>j_circ := Some (map Fin jc), E_circ := Some ec\<rparr>)"
    using True jc ec
    by (simp add: circular_reference_def Let_def create_particle_array_upd
        create_particle_array_pos [OF assms(2)])
  then show ?thesis unfolding same .
next
  case False
  from assms(1) False obtain t jc where
    t: "te h = Some t"
    and jc: "j_circ_by_energy (interp_nonfinite c) li (pro_E_circ pro) (pro_j_circ pro) t = Inr jc"
    and hC: "hC = h\<lparr>j_circ := Some jc\<rparr>"
    by (auto simp: circular_reference_def split: sum.splits option.splits)
  have same: "h2\<lparr>j_circ := Some jc\<rparr> = h2"
    by (rule snapshot.equality) (simp_all add: assms(4) hC)
  have "circular_reference c fr li pro h2 = (Inr (), h2\<lparr>j_circ := Some jc\<rparr>)"
    using False t jc assms(3) by (simp add: circular_reference_def)
  then show ?thesis unfolding same .
qed

lemma ratio_field_again:
  assumes "ratio_field c h = (Inr (), hQ)"
    and "pos h2 = pos h" "vel h2 = vel h" "j_circ h2 = j_circ h"
    and "jz_by_jzcirc h2 = jz_by_jzcirc hQ"
  shows "ratio_field c h2 = (Inr (), h2)"
proof -
  from assms(1) obtain jc where jc: "j_circ h = Some jc"
    and hQ: "hQ = h\<lparr>jz_by_jzcirc := Some (map2 flt_div
        (map2 (\<lambda>p v. snd (snd (j_of c p v))) (pos h) (vel h)) jc)\<rparr>"
    by (auto simp: ratio_field_def Let_def split: option.splits)
  have same: "h2\<lparr>jz_by_jzcirc := Some (map2 flt_div
        (map2 (\<lambda>p v. snd (snd (j_of c p v))) (pos h) (vel h)) jc)\<rparr> = h2"
    by (rule snapshot.equality) (simp_all add: assms(5) hQ)
  have "ratio_field c h2 = (Inr (), h2\<lparr>jz_by_jzcirc := Some (map2 flt_div
        (map2 (\<lambda>p v. snd (snd (j_of c p v))) (pos h) (vel h)) jc)\<rparr>)"
    using jc assms(2,3,4) by (simp add: ratio_field_def Let_def)
  then show ?thesis unfolding same .
qed

lemma classify_again:
  assumes "classify c jmin jmax ecut h = (Inr (), hL, l)"
    and "case decomp_array h of None \<Rightarrow> True | Some d \<Rightarrow> length d = n_star h"
    and "families h2 = families h" "pos h2 = pos h" "vel h2 = vel h" "te h2 = te h"
    and "jz_by_jzcirc h2 = jz_by_jzcirc h" "decomp_array h2 = decomp_array hL"
  shows "classify c jmin jmax ecut h2 = (Inr (), h2, l)"
proof -
  from assms(1) obtain ra ta where ra: "jz_by_jzcirc h = Some ra" and ta: "te h = Some ta"
    by (auto simp: classify_def split: option.splits)
  have ra2: "jz_by_jzcirc h2 = Some ra" and ta2: "te h2 = Some ta"
    using assms(6,7) ra ta by simp_all
  let ?R = "star_items h ra"
  let ?ts = "star_items h ta"
  let ?V = "star_items h (map2 (vcxy_of c) (pos h) (vel h))"
  let ?d0 = "create_decomp (fresh_int c) (length ?R) (decomp_array h)"
  let ?ec = "case ecut of None \<Rightarrow> np_median ?ts | Some e \<Rightarrow> e"
  from assms(1) obtain jc where jc: "bisect c 0 5 (objective ?V ?R) = Inr jc"
    by (auto simp: classify_unfold [OF ra ta] Let_def split: sum.splits)
  let ?jcrit = "if jc > jmin then jmin else jc"
  let ?D = "pass2 jmin jmax ?jcrit ?ec ?ts ?R (pass1 jmin jmax ?R ?d0)"
  let ?l = "[Info_finding_boundary, Info_j_crit jc]
       @ (if jc > jmin then [Warning_j_crit_exceeds, Warning_j_crit_reset jmin] else [])
       @ [Info_E_cut ?ec]"
  from assms(1) jc have hL: "hL = h\<lparr>decomp_array := Some ?D\<rparr>" and l: "l = ?l"
    by (simp_all add: classify_unfold [OF ra ta] Let_def)
  have len0: "length ?d0 = length ?R"
    using assms(2) by (cases "decomp_array h") (simp_all add: create_decomp_def length_star_items)
  have lens: "length ?R = length ?d0" "length ?ts = length ?d0"
    using len0 by (simp_all add: length_star_items)
  have D2: "decomp_array h2 = Some ?D" using assms(8) by (simp add: hL)
  have st: "star_items h2 xs = star_items h xs" for xs :: "'b list"
    using assms(3) by (simp add: star_items_def)
  have again: "pass2 jmin jmax ?jcrit ?ec ?ts ?R (pass1 jmin jmax ?R ?D) = ?D"
    by (rule relabel_same [OF lens])
  have same: "h2\<lparr>decomp_array := Some ?D\<rparr> = h2"
    by (rule snapshot.equality) (simp_all add: D2)
  have cd: "create_decomp (fresh_int c) (length ?R) (decomp_array h2) = ?D"
    by (simp add: D2 create_decomp_def)
  have "classify c jmin jmax ecut h2 = (Inr (), h2\<lparr>decomp_array := Some ?D\<rparr>, ?l)"
    unfolding classify_unfold [OF ra2 ta2] Let_def st assms(4,5) cd jc sum.case again
    by simp
  then show ?thesis unfolding same l .
qed

lemma circular_reference_fields:
  assumes "circular_reference c fr li pro h = (r, h')"
  shows
    "families h' = families h" "pos h' = pos h" "vel h' = vel h" "mass h' = mass h"
    "eps h' = eps h" "phi h' = phi h" "phi_units h' = phi_units h" "te h' = te h"
    "jz_by_jzcirc h' = jz_by_jzcirc h" "decomp_array h' = decomp_array h"
    "particle_data.truncate h' = particle_data.truncate h"
proof -
  note f = circular_reference_frame [OF assms]
  show
    "families h' = families h" "pos h' = pos h" "vel h' = vel h" "mass h' = mass h"
    "eps h' = eps h" "phi h' = phi h" "phi_units h' = phi_units h" "te h' = te h"
    "jz_by_jzcirc h' = jz_by_jzcirc h" "decomp_array h' = decomp_array h"
    "particle_data.truncate h' = particle_data.truncate h"
    using
      arg_cong [OF f, of families] arg_cong [OF f, of pos] arg_cong [OF f, of vel]
      arg_cong [OF f, of mass] arg_cong [OF f, of eps] arg_cong [OF f, of phi]
      arg_cong [OF f, of phi_units] arg_cong [OF f, of te] arg_cong [OF f, of jz_by_jzcirc]
      arg_cong [OF f, of decomp_array] arg_cong [OF f, of particle_data.truncate]
    by (simp_all add: particle_data.truncate_def)
qed

lemma ratio_field_fields:
  assumes "ratio_field c h = (r, h')"
  shows
    "families h' = families h" "pos h' = pos h" "vel h' = vel h" "mass h' = mass h"
    "eps h' = eps h" "phi h' = phi h" "phi_units h' = phi_units h" "te h' = te h"
    "j_circ h' = j_circ h" "E_circ h' = E_circ h" "decomp_array h' = decomp_array h"
    "particle_data.truncate h' = particle_data.truncate h"
proof -
  note f = ratio_field_frame [OF assms]
  show
    "families h' = families h" "pos h' = pos h" "vel h' = vel h" "mass h' = mass h"
    "eps h' = eps h" "phi h' = phi h" "phi_units h' = phi_units h" "te h' = te h"
    "j_circ h' = j_circ h" "E_circ h' = E_circ h" "decomp_array h' = decomp_array h"
    "particle_data.truncate h' = particle_data.truncate h"
    using
      arg_cong [OF f, of families] arg_cong [OF f, of pos] arg_cong [OF f, of vel]
      arg_cong [OF f, of mass] arg_cong [OF f, of eps] arg_cong [OF f, of phi]
      arg_cong [OF f, of phi_units] arg_cong [OF f, of te] arg_cong [OF f, of j_circ]
      arg_cong [OF f, of E_circ] arg_cong [OF f, of decomp_array]
      arg_cong [OF f, of particle_data.truncate]
    by (simp_all add: particle_data.truncate_def)
qed

lemma classify_fields:
  assumes "classify c jmin jmax ecut h = (r, h', l)"
  shows
    "families h' = families h" "pos h' = pos h" "vel h' = vel h" "mass h' = mass h"
    "eps h' = eps h" "phi h' = phi h" "phi_units h' = phi_units h" "te h' = te h"
    "j_circ h' = j_circ h" "E_circ h' = E_circ h" "jz_by_jzcirc h' = jz_by_jzcirc h"
    "particle_data.truncate h' = particle_data.truncate h"
proof -
  note f = classify_frame [OF assms]
  show
    "families h' = families h" "pos h' = pos h" "vel h' = vel h" "mass h' = mass h"
    "eps h' = eps h" "phi h' = phi h" "phi_units h' = phi_units h" "te h' = te h"
    "j_circ h' = j_circ h" "E_circ h' = E_circ h" "jz_by_jzcirc h' = jz_by_jzcirc h"
    "particle_data.truncate h' = particle_data.truncate h"
    using
      arg_cong [OF f, of families] arg_cong [OF f, of pos] arg_cong [OF f, of vel]
      arg_cong [OF f, of mass] arg_cong [OF f, of eps] arg_cong [OF f, of phi]
      arg_cong [OF f, of phi_units] arg_cong [OF f, of te] arg_cong [OF f, of j_circ]
      arg_cong [OF f, of E_circ] arg_cong [OF f, of jz_by_jzcirc]
      arg_cong [OF f, of particle_data.truncate]
    by (simp_all add: particle_data.truncate_def)
qed

lemma energy_field_fields:
  assumes "energy_field c h = (r, h', l)"
  shows
    "families h' = families h" "pos h' = pos h" "vel h' = vel h" "mass h' = mass h"
    "eps h' = eps h" "j_circ h' = j_circ h" "E_circ h' = E_circ h"
    "jz_by_jzcirc h' = jz_by_jzcirc h" "decomp_array h' = decomp_array h"
proof -
  note f = energy_field_frame [OF assms]
  show
    "families h' = families h" "pos h' = pos h" "vel h' = vel h" "mass h' = mass h"
    "eps h' = eps h" "j_circ h' = j_circ h" "E_circ h' = E_circ h"
    "jz_by_jzcirc h' = jz_by_jzcirc h" "decomp_array h' = decomp_array h"
    using
      arg_cong [OF f, of families] arg_cong [OF f, of pos] arg_cong [OF f, of vel]
      arg_cong [OF f, of mass] arg_cong [OF f, of eps] arg_cong [OF f, of j_circ]
      arg_cong [OF f, of E_circ] arg_cong [OF f, of jz_by_jzcirc]
      arg_cong [OF f, of decomp_array]
    by (simp_all add: particle_data.truncate_def)
qed

text \<open>
  Claim C8. On a snapshot taken as already aligned, a second call of \<open>decomp\<close> with
  the same arguments, made on the snapshot the first call left behind, returns the same
  profile and log and leaves every array as the first call left it; in particular the
  \<open>decomp\<close> labels of all stars are the same. The collaborators are functions of the
  loaded fields, the snapshot is well formed and the unit of \<open>ke\<close> has a non-zero scale.
\<close>

theorem decomp_twice_same_labels:
  assumes "aligned P" and "decomp c P h = (Inr pro, h1, l1)"
    and "well_formed h" and "u_scale (ke_units c) \<noteq> 0"
  shows "decomp c P h1 = (Inr pro, h1, l1)
    \<and> decomp_array (fst (snd (decomp c P h1))) = decomp_array h1"
proof -
  from assms(1,2) have body: "decomp_body c P h = (Inr pro, h1, l1)"
    by (simp add: decomp_aligned)
  from decomp_body_Inr [OF body] obtain M hE lE hC hQ lL where
    E: "energy_field c h = (Inr M, hE, lE)"
    and R: "rotation_curve c (particles_per_bin P) M hE = Inr pro"
    and C: "circular_reference c (j_circ_from_r P) (log_interp P) pro hE = (Inr (), hC)"
    and Q: "ratio_field c hC = (Inr (), hQ)"
    and L: "classify c (j_disk_min P) (j_disk_max P) (E_cut P) hQ = (Inr (), h1, lL)"
    and l1: "l1 = lE @ [Info_making_curve] @ lL"
    by blast
  note kE = energy_field_fields [OF E]
  note kC = circular_reference_fields [OF C]
  note kQ = ratio_field_fields [OF Q]
  note kL = classify_fields [OF L]
  have E2: "energy_field c h1 = (Inr M, h1, lE)"
    by (rule energy_field_again [OF E assms(4)]) (simp_all add: kL kQ kC)
  have R2: "rotation_curve c (particles_per_bin P) M h1 = Inr pro"
    unfolding R [symmetric]
    by (rule rotation_curve_again) (simp_all add: kL kQ kC)
  have C2: "circular_reference c (j_circ_from_r P) (log_interp P) pro h1 = (Inr (), h1)"
    by (rule circular_reference_again [OF C]) (simp_all add: kL kQ kC)
  have Q2: "ratio_field c h1 = (Inr (), h1)"
    by (rule ratio_field_again [OF Q]) (simp_all add: kL kQ)
  have ns: "n_star hQ = n_star h" and dq: "decomp_array hQ = decomp_array h"
    by (simp_all add: n_star_def kQ kC kE)
  have wfQ: "case decomp_array hQ of None \<Rightarrow> True | Some d \<Rightarrow> length d = n_star hQ"
    unfolding ns dq using assms(3) by (simp add: well_formed_def)
  have L2: "classify c (j_disk_min P) (j_disk_max P) (E_cut P) h1 = (Inr (), h1, lL)"
    by (rule classify_again [OF L wfQ]) (simp_all add: kL)
  have "decomp_body c P h1 = (Inr pro, h1, l1)"
    by (simp add: decomp_body_def E2 R2 C2 Q2 L2 l1)
  then have "decomp c P h1 = (Inr pro, h1, l1)"
    using assms(1) by (simp add: decomp_aligned)
  then show ?thesis by simp
qed

theorem decomp_twice_same_labels_witness:
  "decomp_array (fst (snd (decomp ex_collab ex_params
       (fst (snd (decomp ex_collab ex_params ex_snapshot)))))) = Some [1, 2, 0]"
proof -
  have al: "aligned ex_params" by (simp add: ex_params_def)
  have wf: "well_formed ex_snapshot"
    by (simp add: well_formed_def ex_snapshot_def)
  have sc: "u_scale (ke_units ex_collab) \<noteq> 0" by (simp add: ex_collab_def)
  from decomp_twice_same_labels [OF al ex_run wf sc]
  show ?thesis by (simp add: ex_run)
qed

subsection \<open>The quantile estimate\<close>

text \<open>
  Claim C9. When \<open>estimate_jcirc_from_energy\<close> completes, the quantile profile it returns
  was built with \<open>len(h) // particles_per_bin\<close> bins of total energy, each bin holding
  the given quantile of \<open>j2\<close> over the particles of that bin; \<open>jcirc2\<close> holds for every
  particle the value of its bin, \<open>jcirc\<close> the square root of that value, nothing else in
  the snapshot changes (the \<open>decomp\<close> labels among it), and the defaults are 500
  particles per bin and the quantile 0.99.
\<close>

theorem estimate_jcirc_from_energy_result:
  assumes "estimate_jcirc_from_energy c h ppb q = (Inr pro, h')"
  shows "ppb \<noteq> 0
    \<and> (\<exists>ts bins. te h = Some ts
          \<and> equaln_bins c ts (int (length (families h)) div ppb) = Inr bins
          \<and> qp_bin_of pro = bins
          \<and> length (qp_j2 pro) = nat (int (length (families h)) div ppb)
          \<and> (\<forall>b < length (qp_j2 pro). qp_j2 pro ! b
                = quantile_of c q (take_items (map2 (j2_of c) (pos h) (vel h))
                                     (np_where (map (\<lambda>k. k = b) bins))))
          \<and> jcirc2 h' = Some (map (\<lambda>b. qp_j2 pro ! b) bins)
          \<and> jcirc h' = Some (map (\<lambda>b. np_sqrt (qp_j2 pro ! b)) bins))
    \<and> decomp_array h' = decomp_array h
    \<and> h' = h\<lparr>jcirc2 := jcirc2 h', jcirc := jcirc h'\<rparr>
    \<and> estimate_jcirc_from_energy_default c h = estimate_jcirc_from_energy c h 500 (99 / 100)"
proof -
  let ?n = "int (length (families h)) div ppb"
  from assms have nz: "ppb \<noteq> 0"
    by (auto simp: estimate_jcirc_from_energy_def py_floordiv_def split: if_splits)
  with assms obtain a where
    Q: "QuantileProfile c h q ?n = Inr pro"
    and A: "qp_create_particle_array pro = Inr a"
    and h': "h' = h\<lparr>jcirc2 := Some a, jcirc := Some (map np_sqrt a)\<rparr>"
    by (auto simp: estimate_jcirc_from_energy_def py_floordiv_def Let_def split: sum.splits)
  from Q obtain ts bins where
    ts: "te h = Some ts" and bins: "equaln_bins c ts ?n = Inr bins"
    and pro: "pro = \<lparr>qp_bin_of = bins,
        qp_j2 = map (\<lambda>b. quantile_of c q (take_items (map2 (j2_of c) (pos h) (vel h))
                          (np_where (map (\<lambda>k. k = b) bins)))) [0..<nat ?n]\<rparr>"
    by (auto simp: QuantileProfile_def Let_def split: option.splits sum.splits)
  from A have a: "a = map (\<lambda>b. qp_j2 pro ! b) (qp_bin_of pro)"
    by (auto simp: qp_create_particle_array_def split: if_splits)
  have "qp_bin_of pro = bins" "length (qp_j2 pro) = nat ?n"
    "\<forall>b < length (qp_j2 pro). qp_j2 pro ! b
        = quantile_of c q (take_items (map2 (j2_of c) (pos h) (vel h))
                             (np_where (map (\<lambda>k. k = b) bins)))"
    by (simp_all add: pro)
  moreover have "jcirc2 h' = Some (map (\<lambda>b. qp_j2 pro ! b) bins)"
    "jcirc h' = Some (map (\<lambda>b. np_sqrt (qp_j2 pro ! b)) bins)"
    by (simp_all add: h' a pro comp_def)
  moreover have "decomp_array h' = decomp_array h" "h' = h\<lparr>jcirc2 := jcirc2 h', jcirc := jcirc h'\<rparr>"
    by (simp_all add: h')
  ultimately show ?thesis
    using nz ts bins by (simp add: estimate_jcirc_from_energy_default_def)
qed

lemma ex_estimate:
  "estimate_jcirc_from_energy ex_collab (ex_snapshot\<lparr>te := Some [-2, 0, -1, 0]\<rparr>) 2 (99 / 100)
   = (Inr \<lparr>qp_bin_of = [0, 1, 1, 1], qp_j2 = [4, 121 / 25]\<rparr>,
      ex_snapshot\<lparr>te := Some [-2, 0, -1, 0], jcirc2 := Some [4, 121 / 25, 121 / 25, 121 / 25],
        jcirc := Some [np_sqrt 4, np_sqrt (121 / 25), np_sqrt (121 / 25), np_sqrt (121 / 25)]\<rparr>)"
  by (simp add: estimate_jcirc_from_energy_def QuantileProfile_def qp_create_particle_array_def
      py_floordiv_def j2_of_def take_items_def np_where_def ex_defs Let_def eval_nat_numeral)

theorem estimate_jcirc_from_energy_result_witness:
  "jcirc2 (snd (estimate_jcirc_from_energy ex_collab
       (ex_snapshot\<lparr>te := Some [-2, 0, -1, 0]\<rparr>) 2 (99 / 100)))
     = Some [4, 121 / 25, 121 / 25, 121 / 25]
   \<and> decomp_array (snd (estimate_jcirc_from_energy ex_collab
       (ex_snapshot\<lparr>te := Some [-2, 0, -1, 0]\<rparr>) 2 (99 / 100))) = None"
proof -
  from estimate_jcirc_from_energy_result [OF ex_estimate]
  have "decomp_array (ex_snapshot\<lparr>te := Some [-2, 0, -1, 0],
        jcirc2 := Some [4, 121 / 25, 121 / 25, 121 / 25],
        jcirc := Some [np_sqrt 4, np_sqrt (121 / 25), np_sqrt (121 / 25), np_sqrt (121 / 25)]\<rparr>)
      = decomp_array (ex_snapshot\<lparr>te := Some [-2, 0, -1, 0]\<rparr>)"
    by blast
  then show ?thesis
    by (simp add: ex_estimate) (simp add: ex_snapshot_def)
qed

subsection \<open>The interpolant\<close>

lemma np_interp_nonneg:
  assumes "sorted (x0 # map fst ps)" "0 \<le> y0" "\<forall>p \<in> set ps. 0 \<le> snd p" "x0 \<le> x"
  shows "0 \<le> np_interp (x0, y0) ps x"
  using assms
proof (induction ps arbitrary: x0 y0)
  case Nil
  then show ?case by simp
next
  case (Cons p ps)
  obtain x1 y1 where p: "p = (x1, y1)" by (cases p)
  from Cons.prems p have y1: "0 \<le> y1" and srt: "sorted (x1 # map fst ps)"
    and rest: "\<forall>q \<in> set ps. 0 \<le> snd q"
    by auto
  show ?case
  proof (cases "x < x1")
    case True
    show ?thesis
    proof (cases "x = x0")
      case True
      with \<open>x < x1\<close> Cons.prems(2) show ?thesis by (simp add: p)
    next
      case False
      with Cons.prems(4) have lt: "x0 < x" by simp
      with True have pos: "0 < x1 - x0" by simp
      have "(y1 - y0) / (x1 - x0) * (x - x0) + y0
          = (y1 * (x - x0) + y0 * (x1 - x)) / (x1 - x0)"
        using pos by (simp add: field_simps)
      moreover have "0 \<le> y1 * (x - x0) + y0 * (x1 - x)"
        using y1 Cons.prems(2) lt True by simp
      ultimately have "0 \<le> (y1 - y0) / (x1 - x0) * (x - x0) + y0"
        using pos by simp
      with True False show ?thesis by (simp add: p)
    qed
  next
    case False
    then have "x1 \<le> x" by simp
    from Cons.IH [OF srt y1 rest this] False show ?thesis by (simp add: p)
  qed
qed

lemma sorted_Cons_Min: "sorted (a # as) \<Longrightarrow> Min (set (a # as)) = a"
  by (intro Min_eqI) auto

lemma sorted_last_Max:
  assumes "sorted xs" "xs \<noteq> []"
  shows "Max (set xs) = last xs"
proof (rule Max_eqI)
  show "finite (set xs)" by simp
  show "last xs \<in> set xs" using assms(2) by simp
  fix y assume "y \<in> set xs"
  from assms(2) have "xs = butlast xs @ [last xs]" by simp
  then have "sorted (butlast xs @ [last xs])" using assms(1) by simp
  then have "\<forall>z \<in> set (butlast xs). z \<le> last xs"
    by (simp add: sorted_append)
  moreover from \<open>y \<in> set xs\<close> \<open>xs = butlast xs @ [last xs]\<close>
  have "y \<in> set (butlast xs) \<or> y = last xs"
    by (metis Un_iff empty_iff empty_set insert_iff list.simps(15) set_append)
  ultimately show "y \<le> last xs" by auto
qed

text \<open>On finite samples the sort of the interpolant is the sort by \<open>x\<close>.\<close>

lemma fin_pt_fin_sample [simp]: "fin_pt (fin_sample p) = p"
  by (simp add: fin_pt_def fin_sample_def)

lemma insort_sample_fin:
  "insort_sample (fin_sample p) (map fin_sample qs) = map fin_sample (insort_key fst p qs)"
  by (induction qs) (auto simp: fin_sample_def sorts_before_def flt_less_def)

lemma sort_samples_fin: "sort_samples (map fin_sample zs) = map fin_sample (sort_key fst zs)"
  unfolding sort_samples_def sort_key_def by (induction zs) (simp_all add: insort_sample_fin)

lemma zip_Fin: "zip (map Fin x) (map Fin y) = map fin_sample (zip x y)"
  by (simp add: zip_map_map fin_sample_def case_prod_beta)

lemma finite_samples_fin: "finite_samples (map fin_sample zs)"
  by (simp add: finite_samples_def list_all_iff fin_sample_def)

text \<open>What an interpolant built on finite samples is: the samples sorted by \<open>x\<close>, from the
  smallest \<open>x\<close> to the largest.\<close>

lemma interp1d_Fin:
  assumes "interp1d (map Fin x) (map Fin y) = Inr f"
  shows "length x = length y" "x \<noteq> []"
    "fst f # snd f = map fin_sample (sort_key fst (zip x y))"
    "fin_pt (fst f) # map fin_pt (snd f) = sort_key fst (zip x y)"
    "sorted (map fst (fin_pt (fst f) # map fin_pt (snd f)))"
    "fst (fst f) = Fin (Min (set x))"
    "fst (last (fst f # snd f)) = Fin (Max (set x))"
    "snd ` set (fin_pt (fst f) # map fin_pt (snd f)) = set y"
    "finite_samples (fst f # snd f)"
proof -
  let ?zs = "sort_key fst (zip x y)"
  from assms show len: "length x = length y"
    by (auto simp: interp1d_def split: if_splits)
  from assms len show pts: "fst f # snd f = map fin_sample ?zs"
    by (auto simp: interp1d_def zip_Fin sort_samples_fin split: list.splits)
  then obtain z0 zr where zs: "?zs = z0 # zr" and f0: "fst f = fin_sample z0"
    and fr: "snd f = map fin_sample zr"
    by (cases ?zs) auto
  have "length ?zs = length x"
    using len by simp
  with zs show ne: "x \<noteq> []" by auto
  show q: "fin_pt (fst f) # map fin_pt (snd f) = ?zs"
    by (simp add: zs f0 fr comp_def)
  show srt: "sorted (map fst (fin_pt (fst f) # map fin_pt (snd f)))"
    unfolding q by simp
  have "set (map fst ?zs) = set (map fst (zip x y))"
    by simp
  then have fsts: "set (map fst (z0 # zr)) = set x"
    unfolding zs using len by (simp only: map_fst_zip)
  from srt have srt': "sorted (map fst (z0 # zr))"
    unfolding q zs .
  from srt' have "Min (set (map fst (z0 # zr))) = fst z0"
    using sorted_Cons_Min [of "fst z0" "map fst zr"] by simp
  then have "fst z0 = Min (set x)" unfolding fsts by simp
  then show "fst (fst f) = Fin (Min (set x))"
    by (simp add: f0 fin_sample_def)
  from sorted_last_Max [OF srt'] have "Max (set (map fst (z0 # zr))) = fst (last (z0 # zr))"
    by (simp add: last_map)
  then have "fst (last (z0 # zr)) = Max (set x)" unfolding fsts by simp
  moreover have "last (fst f # snd f) = fin_sample (last (z0 # zr))"
    unfolding pts zs by (rule last_map) simp
  ultimately show "fst (last (fst f # snd f)) = Fin (Max (set x))"
    by (simp only: fin_sample_def fst_conv)
  have "snd ` set ?zs = set (map snd (zip x y))"
    by simp
  then show "snd ` set (fin_pt (fst f) # map fin_pt (snd f)) = set y"
    unfolding q using len by (simp only: map_snd_zip)
  show "finite_samples (fst f # snd f)"
    unfolding pts by (rule finite_samples_fin)
qed

lemma interp_call_in_range:
  assumes "interp1d (map Fin x) (map Fin y) = Inr f" "Min (set x) \<le> v" "v \<le> Max (set x)"
  shows "interp_call nf f (Fin v) = Fin (np_interp (fin_pt (fst f)) (map fin_pt (snd f)) v)"
proof -
  note I = interp1d_Fin [OF assms(1)]
  have lo: "\<not> flt_less (Fin v) (fst (fst f))"
    using assms(2) by (simp add: I(6) flt_less_def)
  have hi: "\<not> flt_less (fst (last (fst f # snd f))) (Fin v)"
    using assms(3) unfolding I(7) by (simp add: flt_less_def)
  from lo hi I(9) show ?thesis
    unfolding interp_call_def Let_def by simp
qed

lemma interp_call_nonneg:
  assumes "interp1d (map Fin x) (map Fin y) = Inr f" "Min (set x) \<le> v" "v \<le> Max (set x)"
    and "\<forall>j \<in> set y. 0 \<le> j"
  shows "flt_nonneg (interp_call nf f (Fin v))"
proof -
  obtain x0 y0 where f0: "fin_pt (fst f) = (x0, y0)" by (cases "fin_pt (fst f)")
  note I = interp1d_Fin [OF assms(1)]
  from I(8) assms(4) have all: "\<forall>p \<in> set (fin_pt (fst f) # map fin_pt (snd f)). 0 \<le> snd p"
    by auto
  have x0: "x0 = Min (set x)"
    using I(6) f0 by (cases "fst f") (auto simp: fin_pt_def)
  have "0 \<le> np_interp (x0, y0) (map fin_pt (snd f)) v"
  proof (rule np_interp_nonneg)
    show "sorted (x0 # map fst (map fin_pt (snd f)))" using I(5) by (simp add: f0)
    show "0 \<le> y0" using all by (simp add: f0)
    show "\<forall>p \<in> set (map fin_pt (snd f)). 0 \<le> snd p" using all by simp
    show "x0 \<le> v" using assms(2) x0 by simp
  qed
  then show ?thesis
    by (simp add: interp_call_in_range [OF assms(1,2,3)] f0)
qed

subsection \<open>The circular reference by energy\<close>

lemma build_linear: "build_j_from_E False E J = interp1d (map Fin E) (map Fin J)"
  by (simp add: build_j_from_E_def interp_samples_def)

lemma build_log:
  assumes "\<forall>e \<in> set E. e < 0" "\<forall>j \<in> set J. 0 < j"
  shows "interp_samples True E J
      = (rev (map (\<lambda>e. Fin (log 10 (- e))) E), rev (map (\<lambda>j. Fin (log 10 j)) J))"
    and "build_j_from_E True E J
      = interp1d (map Fin (rev (map (\<lambda>e. log 10 (- e)) E))) (map Fin (rev (map (log 10) J)))"
proof -
  show s: "interp_samples True E J
      = (rev (map (\<lambda>e. Fin (log 10 (- e))) E), rev (map (\<lambda>j. Fin (log 10 j)) J))"
    using assms by (simp add: interp_samples_def np_log10_def)
  show "build_j_from_E True E J
      = interp1d (map Fin (rev (map (\<lambda>e. log 10 (- e)) E))) (map Fin (rev (map (log 10) J)))"
    unfolding build_j_from_E_def s
    by (simp add: comp_def rev_map)
qed

lemma sorted_rev_map_antimono:
  assumes "sorted xs" and "\<And>a b. a \<in> set xs \<Longrightarrow> b \<in> set xs \<Longrightarrow> a \<le> b \<Longrightarrow> g b \<le> g a"
  shows "sorted (rev (map g xs))"
  using assms
proof (induction xs)
  case Nil
  then show ?case by simp
next
  case (Cons x xs)
  from Cons.prems have "sorted (rev (map g xs))"
    by (intro Cons.IH) auto
  moreover have "\<forall>y \<in> set xs. g y \<le> g x"
    using Cons.prems by auto
  ultimately show ?case by (simp add: sorted_append)
qed

lemma j_circ_by_energy_Inr:
  assumes "j_circ_by_energy nf li E J ts = Inr jc"
  shows "\<exists>f j0 Js. build_j_from_E li E J = Inr f \<and> J = j0 # Js \<and> E \<noteq> []
     \<and> length jc = length ts
     \<and> (\<forall>i < length ts. jc ! i =
           (if ts ! i < Min (set E) then Fin j0
            else if ts ! i > Max (set E) then PosInf
            else eval_j_from_E nf li f (ts ! i)))"
proof -
  from assms obtain f Emax j0 Js Emin where
    f: "build_j_from_E li E J = Inr f" and Emax: "np_max E = Inr Emax"
    and J: "J = j0 # Js" and Emin: "np_min E = Inr Emin"
    and jc: "jc = set_items (np_where (map (\<lambda>t. t < Emin) ts)) (Fin j0)
               (set_items (np_where (map (\<lambda>t. t > Emax) ts)) PosInf
                  (map (eval_j_from_E nf li f) ts))"
    by (auto simp: j_circ_by_energy_def Let_def split: sum.splits list.splits)
  from Emax Emin have ne: "E \<noteq> []" and mx: "Emax = Max (set E)" and mn: "Emin = Min (set E)"
    by (simp_all add: np_max_Inr np_min_Inr)
  have "jc ! i = (if ts ! i < Min (set E) then Fin j0
            else if ts ! i > Max (set E) then PosInf
            else eval_j_from_E nf li f (ts ! i))" if "i < length ts" for i
    using that by (simp add: jc nth_set_items set_np_where mx mn)
  moreover have "length jc = length ts" by (simp add: jc)
  ultimately show ?thesis using f J ne by blast
qed

lemma eval_in_range_nonneg:
  assumes "build_j_from_E li E J = Inr f"
    and "\<forall>j \<in> set J. 0 \<le> j"
    and "li \<longrightarrow> (\<forall>e \<in> set E. e < 0) \<and> (\<forall>j \<in> set J. 0 < j)"
    and "E \<noteq> []" "Min (set E) \<le> t" "t \<le> Max (set E)"
  shows "flt_nonneg (eval_j_from_E nf li f t)"
proof (cases li)
  case False
  with assms(1) have "interp1d (map Fin E) (map Fin J) = Inr f" by (simp add: build_linear)
  from interp_call_nonneg [OF this assms(5,6,2)] False
  show ?thesis by (simp add: eval_j_from_E_def)
next
  case True
  with assms(3) have neg: "\<forall>e \<in> set E. e < 0" and pos: "\<forall>j \<in> set J. 0 < j"
    by simp_all
  let ?xs = "rev (map (\<lambda>e. log 10 (- e)) E)"
  from assms(1) True have I: "interp1d (map Fin ?xs) (map Fin (rev (map (log 10) J))) = Inr f"
    by (simp add: build_log [OF neg pos])
  have mxE: "Max (set E) \<in> set E" and mnE: "Min (set E) \<in> set E"
    using assms(4) by simp_all
  from mxE neg have mxneg: "Max (set E) < 0" by blast
  with assms(6) have tneg: "t < 0" by simp
  from mnE neg have mnneg: "Min (set E) < 0" by blast
  have "Min (set ?xs) \<le> log 10 (- Max (set E))"
    using mxE by (intro Min_le) auto
  also have "\<dots> \<le> log 10 (- t)"
    using assms(6) mxneg tneg by simp
  finally have lo: "Min (set ?xs) \<le> log 10 (- t)" .
  have "log 10 (- t) \<le> log 10 (- Min (set E))"
    using assms(5) mnneg tneg by simp
  also have "\<dots> \<le> Max (set ?xs)"
    using mnE by (intro Max_ge) auto
  finally have hi: "log 10 (- t) \<le> Max (set ?xs)" .
  have "np_log10 (- t) = Fin (log 10 (- t))"
    using tneg by (simp add: np_log10_def)
  with interp_call_in_range [OF I lo hi, of nf] True show ?thesis
    by (simp add: eval_j_from_E_def)
qed

text \<open>The two edge assignments hold whatever the profile is.\<close>

lemma j_circ_by_energy_edges:
  assumes "j_circ_by_energy nf li E J ts = Inr jc"
  shows "length jc = length ts
    \<and> (\<exists>j0 Js. J = j0 # Js
         \<and> (\<forall>i < length ts. (ts ! i > Max (set E) \<longrightarrow> jc ! i = PosInf)
                \<and> (ts ! i < Min (set E) \<longrightarrow> jc ! i = Fin j0)))"
proof -
  from j_circ_by_energy_Inr [OF assms(1)] obtain f j0 Js where
    J: "J = j0 # Js" and ne: "E \<noteq> []"
    and len: "length jc = length ts"
    and nth: "\<And>i. i < length ts \<Longrightarrow> jc ! i =
           (if ts ! i < Min (set E) then Fin j0
            else if ts ! i > Max (set E) then PosInf
            else eval_j_from_E nf li f (ts ! i))"
    by blast
  have mm: "Min (set E) \<le> Max (set E)" using ne by simp
  have "(ts ! i > Max (set E) \<longrightarrow> jc ! i = PosInf)
      \<and> (ts ! i < Min (set E) \<longrightarrow> jc ! i = Fin j0)" if i: "i < length ts" for i
    using nth [OF i] mm by auto
  then show ?thesis using len J by blast
qed

lemma j_circ_by_energy_nonneg:
  assumes "j_circ_by_energy nf li E J ts = Inr jc"
    and "\<forall>j \<in> set J. 0 \<le> j"
    and "li \<longrightarrow> (\<forall>e \<in> set E. e < 0) \<and> (\<forall>j \<in> set J. 0 < j)"
  shows "\<forall>i < length jc. flt_nonneg (jc ! i)"
proof -
  from j_circ_by_energy_Inr [OF assms(1)] obtain f j0 Js where
    f: "build_j_from_E li E J = Inr f" and J: "J = j0 # Js" and ne: "E \<noteq> []"
    and len: "length jc = length ts"
    and nth: "\<And>i. i < length ts \<Longrightarrow> jc ! i =
           (if ts ! i < Min (set E) then Fin j0
            else if ts ! i > Max (set E) then PosInf
            else eval_j_from_E nf li f (ts ! i))"
    by blast
  have j0: "0 \<le> j0" using assms(2) J by simp
  have "flt_nonneg (jc ! i)" if i: "i < length ts" for i
  proof (cases "ts ! i < Min (set E) \<or> ts ! i > Max (set E)")
    case True
    with nth [OF i] j0 show ?thesis by auto
  next
    case False
    then have "Min (set E) \<le> ts ! i" "ts ! i \<le> Max (set E)" by auto
    from eval_in_range_nonneg [OF f assms(2,3) ne this, of nf] nth [OF i] False
    show ?thesis by simp
  qed
  then show ?thesis using len by simp
qed

lemma circular_reference_edges:
  assumes "circular_reference c False li pro h = (Inr u, h')"
  shows "\<exists>jc ts j0 Js. j_circ h' = Some jc \<and> te h = Some ts \<and> length jc = length ts
          \<and> pro_j_circ pro = j0 # Js
          \<and> (\<forall>i < length ts.
                (ts ! i > Max (set (pro_E_circ pro)) \<longrightarrow> jc ! i = PosInf)
                \<and> (ts ! i < Min (set (pro_E_circ pro)) \<longrightarrow> jc ! i = Fin j0))"
proof -
  from assms(1) obtain ts jc where
    ts: "te h = Some ts"
    and jc: "j_circ_by_energy (interp_nonfinite c) li (pro_E_circ pro) (pro_j_circ pro) ts
               = Inr jc"
    and j: "j_circ h' = Some jc"
    by (auto simp: circular_reference_def split: sum.splits option.splits)
  from j_circ_by_energy_edges [OF jc] ts j
  show ?thesis by auto
qed

lemma circular_reference_nonneg:
  assumes "circular_reference c fr li pro h = (Inr u, h')"
    and "\<forall>j \<in> set (pro_j_circ pro). 0 \<le> j"
    and "\<not> fr \<and> li
           \<longrightarrow> (\<forall>e \<in> set (pro_E_circ pro). e < 0) \<and> (\<forall>j \<in> set (pro_j_circ pro). 0 < j)"
  shows "\<exists>jc. j_circ h' = Some jc \<and> (\<forall>i < length jc. flt_nonneg (jc ! i))"
proof (cases fr)
  case True
  from assms(1) True obtain vals where
    v: "create_particle_array c pro (pro_j_circ pro) h = Inr vals"
    and j: "j_circ h' = Some (map Fin vals)"
    by (auto simp: circular_reference_def Let_def split: sum.splits)
  from v have "\<forall>x \<in> set vals. x \<in> set (pro_j_circ pro)"
    by (auto simp: create_particle_array_def Let_def list_all_iff split: if_splits)
  with assms(2) have "\<forall>i < length vals. 0 \<le> vals ! i" by simp
  with j show ?thesis by simp
next
  case False
  from assms(1) False obtain ts jc where
    jc: "j_circ_by_energy (interp_nonfinite c) li (pro_E_circ pro) (pro_j_circ pro) ts
               = Inr jc"
    and j: "j_circ h' = Some jc"
    by (auto simp: circular_reference_def split: sum.splits option.splits)
  from assms(3) False have "li
      \<longrightarrow> (\<forall>e \<in> set (pro_E_circ pro). e < 0) \<and> (\<forall>j \<in> set (pro_j_circ pro). 0 < j)"
    by simp
  from j_circ_by_energy_nonneg [OF jc assms(2) this] j
  show ?thesis by simp
qed


text \<open>
  Claim C3, as the code has it. When \<open>decomp\<close> completes in by-energy mode, a particle
  whose \<open>te\<close> is above the profile's largest circular energy has \<open>j_circ\<close> exactly plus
  infinity, and one whose \<open>te\<close> is below the smallest has exactly the \<open>j_circ\<close> of the
  profile's first bin, whatever the profile holds. No particle's \<open>j_circ\<close> is negative or
  NaN, in the by-radius, the linear and the log-interpolated configuration, provided the
  profile's circular angular momenta are not negative and, for the log-interpolated
  variant, its circular energies are all negative and its circular angular momenta all
  positive.
\<close>

theorem j_circ_never_negative:
  assumes "decomp c P h = (Inr pro, h', l)"
  shows "\<exists>jc ts. j_circ h' = Some jc \<and> te h' = Some ts
    \<and> (\<not> j_circ_from_r P \<longrightarrow> length jc = length ts
         \<and> (\<exists>j0 Js. pro_j_circ pro = j0 # Js
              \<and> (\<forall>i < length ts.
                    (ts ! i > Max (set (pro_E_circ pro)) \<longrightarrow> jc ! i = PosInf)
                    \<and> (ts ! i < Min (set (pro_E_circ pro)) \<longrightarrow> jc ! i = Fin j0))))
    \<and> ((\<forall>j \<in> set (pro_j_circ pro). 0 \<le> j)
        \<and> (\<not> j_circ_from_r P \<and> log_interp P
             \<longrightarrow> (\<forall>e \<in> set (pro_E_circ pro). e < 0) \<and> (\<forall>j \<in> set (pro_j_circ pro). 0 < j))
       \<longrightarrow> (\<forall>i < length jc. flt_nonneg (jc ! i)))"
proof -
  from decomp_Inr [OF assms(1)] obtain tx hb where
    body: "decomp_body c P (apply_tx tx h) = (Inr pro, hb, l)"
    and h': "h' = revert_tx h hb" by blast
  from decomp_body_Inr [OF body] obtain M hE lE hC hQ lL where
    E: "energy_field c (apply_tx tx h) = (Inr M, hE, lE)"
    and C: "circular_reference c (j_circ_from_r P) (log_interp P) pro hE = (Inr (), hC)"
    and Q: "ratio_field c hC = (Inr (), hQ)"
    and L: "classify c (j_disk_min P) (j_disk_max P) (E_cut P) hQ = (Inr (), hb, lL)"
    by blast
  note kC = circular_reference_fields [OF C]
  note kQ = ratio_field_fields [OF Q]
  note kL = classify_fields [OF L]
  have jh: "j_circ h' = j_circ hC" and th: "te h' = te hE"
    by (simp_all add: h' revert_tx_def kL kQ kC)
  from E obtain T where T: "te hE = Some T"
    by (auto simp: energy_field_unfold Let_def split: if_splits sum.splits)
  from C obtain jc where jc: "j_circ hC = Some jc"
    by (auto simp: circular_reference_def Let_def split: if_splits sum.splits option.splits)
  have edges: "length jc = length T
         \<and> (\<exists>j0 Js. pro_j_circ pro = j0 # Js
              \<and> (\<forall>i < length T.
                    (T ! i > Max (set (pro_E_circ pro)) \<longrightarrow> jc ! i = PosInf)
                    \<and> (T ! i < Min (set (pro_E_circ pro)) \<longrightarrow> jc ! i = Fin j0)))"
    if "\<not> j_circ_from_r P"
  proof -
    from C that have "circular_reference c False (log_interp P) pro hE = (Inr (), hC)"
      by simp
    from circular_reference_edges [OF this] jc T show ?thesis by auto
  qed
  have nonneg: "\<forall>i < length jc. flt_nonneg (jc ! i)"
    if "\<forall>j \<in> set (pro_j_circ pro). 0 \<le> j"
      and "\<not> j_circ_from_r P \<and> log_interp P
             \<longrightarrow> (\<forall>e \<in> set (pro_E_circ pro). e < 0) \<and> (\<forall>j \<in> set (pro_j_circ pro). 0 < j)"
    using circular_reference_nonneg [OF C that] jc by simp
  from edges nonneg show ?thesis
    unfolding jh th jc T by blast
qed

theorem j_circ_never_negative_witness:
  "j_circ (fst (snd (decomp ex_collab_log (ex_params\<lparr>log_interp := True\<rparr>) ex_snapshot)))
     = Some [Fin 1, PosInf, Fin 1, PosInf]
   \<and> te (fst (snd (decomp ex_collab_log (ex_params\<lparr>log_interp := True\<rparr>) ex_snapshot)))
     = Some [-1, 0, -1, 0]
   \<and> flt_nonneg ([Fin 1, PosInf, Fin 1, PosInf] ! 1)"
proof -
  let ?P = "ex_params\<lparr>log_interp := True\<rparr>"
  let ?pro = "\<lparr>pro_phi = [-2, -11 / 10], pro_kin = [1, 1], pro_j_circ = [1, 10]\<rparr>"
  have a: "\<forall>j \<in> set (pro_j_circ ?pro). 0 \<le> j" by simp
  have b: "\<not> j_circ_from_r ?P \<and> log_interp ?P \<longrightarrow>
      (\<forall>e \<in> set (pro_E_circ ?pro). e < 0) \<and> (\<forall>j \<in> set (pro_j_circ ?pro). 0 < j)"
    by (simp add: pro_E_circ_def)
  from j_circ_never_negative [OF ex_run_log] a b
  have "\<forall>i < length [Fin 1, PosInf, Fin 1, PosInf]. flt_nonneg ([Fin 1, PosInf, Fin 1, PosInf] ! i)"
    by simp
  then have "flt_nonneg ([Fin 1, PosInf, Fin 1, PosInf] ! 1)"
    by simp
  then show ?thesis by (simp add: ex_run_log)
qed

text \<open>
  Claim C3 as stated fails. With a profile whose outer bin has a positive circular energy,
  the log-interpolated variant takes the logarithm of a negative number; \<open>decomp\<close>
  completes and the second and the fourth particle have a NaN \<open>j_circ\<close>. With a profile
  whose inner bin has a negative circular angular momentum, the linear variant completes
  with a negative \<open>j_circ\<close> for the first and the third particle.
\<close>

theorem decomp_nan_and_negative_j_circ:
  "fst (decomp ex_collab_unbound (ex_params\<lparr>log_interp := True\<rparr>) ex_snapshot)
     = Inr \<lparr>pro_phi = [-2, 0], pro_kin = [1, 1], pro_j_circ = [1, 10]\<rparr>
   \<and> j_circ (fst (snd (decomp ex_collab_unbound (ex_params\<lparr>log_interp := True\<rparr>) ex_snapshot)))
     = Some [Fin 1, NaN, Fin 1, NaN]
   \<and> \<not> flt_nonneg NaN
   \<and> fst (decomp ex_collab_retrograde ex_params ex_snapshot)
     = Inr \<lparr>pro_phi = [-3, 0], pro_kin = [1, 0], pro_j_circ = [-3, 1]\<rparr>
   \<and> j_circ (fst (snd (decomp ex_collab_retrograde ex_params ex_snapshot)))
     = Some [Fin (-1), Fin 1, Fin (-1), Fin 1]
   \<and> \<not> flt_nonneg (Fin (-1))"
  by (simp add: ex_run_unbound ex_run_retrograde)

subsection \<open>The order of the samples\<close>

text \<open>
  Claim C6, as the code has it. For a profile whose circular energies are negative and
  increase with the bin index and whose circular angular momenta are positive: the
  log-interpolated variant hands \<open>interp1d\<close> the samples \<open>log10(-E_circ)\<close> and
  \<open>log10(j_circ)\<close> in reversed bin order, which is ascending in \<open>x\<close>; the linear variant
  hands it \<open>E_circ\<close> and \<open>j_circ\<close> in bin order, without a reversal. In the
  log-interpolated variant the value assigned at line 153 is, for every particle, 10 raised
  to the interpolant at \<open>log10(-te)\<close>, and a particle whose \<open>te\<close> lies within the profile's
  range of circular energies keeps that value.
\<close>

theorem interpolant_sample_order:
  assumes "sorted E" and "\<forall>e \<in> set E. e < 0" and "\<forall>j \<in> set J. 0 < j"
  shows "interp_samples True E J
      = (rev (map (\<lambda>e. Fin (log 10 (- e))) E), rev (map (\<lambda>j. Fin (log 10 j)) J))
    \<and> sorted (rev (map (\<lambda>e. log 10 (- e)) E))
    \<and> interp_samples False E J = (map Fin E, map Fin J)
    \<and> (\<forall>nf ts jc. j_circ_by_energy nf True E J ts = Inr jc \<longrightarrow>
         (\<exists>f. interp1d (rev (map (\<lambda>e. Fin (log 10 (- e))) E))
                  (rev (map (\<lambda>j. Fin (log 10 j)) J)) = Inr f
            \<and> (\<forall>t. eval_j_from_E nf True f t = pow10 (interp_call nf f (np_log10 (- t))))
            \<and> (\<forall>i < length ts. Min (set E) \<le> ts ! i \<and> ts ! i \<le> Max (set E) \<longrightarrow>
                  jc ! i = pow10 (interp_call nf f (np_log10 (- (ts ! i)))))))"
proof -
  note s = build_log(1) [OF assms(2,3)]
  have b: "build_j_from_E True E J
      = interp1d (rev (map (\<lambda>e. Fin (log 10 (- e))) E)) (rev (map (\<lambda>j. Fin (log 10 j)) J))"
    unfolding build_j_from_E_def s by simp
  have asc: "sorted (rev (map (\<lambda>e. log 10 (- e)) E))"
  proof (rule sorted_rev_map_antimono [OF assms(1)])
    fix a b assume "a \<in> set E" "b \<in> set E" "a \<le> b"
    with assms(2) show "log 10 (- b) \<le> log 10 (- a)" by simp
  qed
  have lin: "interp_samples False E J = (map Fin E, map Fin J)"
    by (simp add: interp_samples_def)
  have "\<exists>f. interp1d (rev (map (\<lambda>e. Fin (log 10 (- e))) E))
                  (rev (map (\<lambda>j. Fin (log 10 j)) J)) = Inr f
            \<and> (\<forall>t. eval_j_from_E nf True f t = pow10 (interp_call nf f (np_log10 (- t))))
            \<and> (\<forall>i < length ts. Min (set E) \<le> ts ! i \<and> ts ! i \<le> Max (set E) \<longrightarrow>
                  jc ! i = pow10 (interp_call nf f (np_log10 (- (ts ! i)))))"
    if run: "j_circ_by_energy nf True E J ts = Inr jc" for nf ts jc
  proof -
    from j_circ_by_energy_Inr [OF run] obtain f j0 Js where
      f: "build_j_from_E True E J = Inr f"
      and nth: "\<And>i. i < length ts \<Longrightarrow> jc ! i =
           (if ts ! i < Min (set E) then Fin j0
            else if ts ! i > Max (set E) then PosInf
            else eval_j_from_E nf True f (ts ! i))"
      by blast
    have ev: "eval_j_from_E nf True f t = pow10 (interp_call nf f (np_log10 (- t)))" for t
      by (simp add: eval_j_from_E_def)
    have "jc ! i = pow10 (interp_call nf f (np_log10 (- (ts ! i))))"
      if "i < length ts" "Min (set E) \<le> ts ! i" "ts ! i \<le> Max (set E)" for i
      using nth [OF that(1)] that(2,3) by (simp add: ev)
    with f ev show ?thesis unfolding b by blast
  qed
  with s asc lin show ?thesis by blast
qed

theorem interpolant_sample_order_witness:
  "sorted (rev (map (\<lambda>e. log 10 (- e)) [-100, -10 :: real]))
   \<and> fst (interp_samples True [-100, -10] [10, 100])
       = [Fin (log 10 10), Fin (log 10 100)]"
proof -
  have a: "sorted [-100, -10 :: real]" by simp
  have b: "\<forall>e \<in> set [-100, -10 :: real]. e < 0" by simp
  have c: "\<forall>j \<in> set [10, 100 :: real]. 0 < j" by simp
  from interpolant_sample_order [OF a b c]
  have "sorted (rev (map (\<lambda>e. log 10 (- e)) [-100, -10 :: real]))"
    and "interp_samples True [-100, -10] [10, 100]
      = (rev (map (\<lambda>e. Fin (log 10 (- e))) [-100, -10]),
         rev (map (\<lambda>j. Fin (log 10 j)) [10, 100]))"
    by blast+
  then show ?thesis by simp
qed

text \<open>
  Claim C6 as stated fails for the linear variant: the samples are handed over in bin
  order, not reversed.
\<close>

theorem linear_variant_keeps_bin_order:
  "fst (interp_samples False [-2, -1] [1, 3]) = [Fin (-2), Fin (-1)]
   \<and> fst (interp_samples False [-2, -1] [1, 3]) \<noteq> rev [Fin (-2), Fin (-1)]"
  by (simp add: interp_samples_def)

end
